theory Spec2Isabelle
  imports Main "HOL-Library.AList" "HOL-Library.Stream" "HOL-Library.Word"
begin

section \<open>The 802.1X dispatcher (chewie.py) and its sockets (nfv\_sockets.py)\<close>

subsection \<open>Values the dispatcher handles\<close>

type_synonym byte = "8 word"

text \<open>
  Modelled from the spec: the class \<open>MacAddress\<close> (chewie/mac\_address.py) is not under
  src/. The spec's data model says: "MacAddress. 6-byte opaque; equality and string form".
  The dispatcher only builds addresses with \<open>MacAddress.from_string\<close> and reads them with
  \<open>str\<close>, so an address is identified with its string form.
\<close>

datatype mac_address = MacAddress string

fun str_mac :: "mac_address \<Rightarrow> string" where
  "str_mac (MacAddress a) = a"

definition from_string :: "string \<Rightarrow> mac_address" where
  "from_string a = MacAddress a"

definition PAE_GROUP_ADDRESS :: mac_address where
  "PAE_GROUP_ADDRESS = from_string ''01:80:C2:00:00:03''"

definition DEFAULT_PORT_UP_IDENTITY_REQUEST_WAIT_PERIOD :: nat where
  "DEFAULT_PORT_UP_IDENTITY_REQUEST_WAIT_PERIOD = 20"

definition DEFAULT_PREEMPTIVE_IDENTITY_REQUEST_INTERVAL :: nat where
  "DEFAULT_PREEMPTIVE_IDENTITY_REQUEST_INTERVAL = 60"

text \<open>
  The exceptions that the modelled code raises, catches or lets through.
\<close>

datatype py_exception =
    StructError
  | OSError int
  | MessageParseError
  | CancelledError
  | OtherException string

text \<open>
  Modelled from the spec: the message classes (chewie/message\_parser.py,
  chewie/ethernet\_packet.py) are not under src/. An inbound EAP message carries the
  client's address and possibly a \<open>message_id\<close> (spec: "identifier \<in> 0..255"); the
  dispatcher reads it with \<open>getattr(eap, 'message_id', -1)\<close>, so \<open>None\<close> stands for a
  message without the attribute. The dispatcher never looks at the rest of a message.
\<close>

record eap_message =
  eap_src_mac :: mac_address
  eap_message_id :: "nat option"
  eap_body :: "byte list"

record ethernet_packet =
  eth_dst_mac :: mac_address
  eth_src_mac :: mac_address
  eth_data :: "byte list"

datatype message = Eap eap_message | Eth ethernet_packet

text \<open>The events of chewie/event.py that the dispatcher hands to a machine.\<close>

datatype event =
    EventMessageReceived message mac_address
  | EventPortStatusChange bool
  | EventPreemptiveEAPResponseMessageReceived eap_message mac_address int
  | EventRadiusMessageReceived "byte list"

text \<open>
  The two state machine classes (chewie/state\_machines) are not under src/: their
  constructors, their \<open>event\<close> method and the observers the dispatcher calls are taken as
  parameters. \<open>current_id\<close> is \<open>None\<close> when the machine has no such attribute or holds
  Python's \<open>None\<close> there: in both cases the dispatcher's comparison loop is not entered.
  Every theorem below holds for every such interface.
\<close>

record 'sm fsm =
  new_full_eap :: "string \<Rightarrow> mac_address \<Rightarrow> 'sm"
  new_mab :: "string \<Rightarrow> mac_address \<Rightarrow> 'sm"
  sm_event :: "event \<Rightarrow> 'sm \<Rightarrow> 'sm"
  is_in_progress :: "'sm \<Rightarrow> bool"
  is_success :: "'sm \<Rightarrow> bool"
  current_id :: "'sm \<Rightarrow> nat option"

datatype sm_kind = FullEAPStateMachine | MacAuthenticationBypassStateMachine

text \<open>
  A machine is a Python object: \<open>obj_id\<close> is its identity (the number of machines the
  dispatcher had constructed before it), so that two machines built alike are still two.
\<close>

record 'sm state_machine =
  obj_id :: nat
  kind :: sm_kind
  fsm_state :: "'sm"

definition deliver :: "'sm fsm \<Rightarrow> event \<Rightarrow> 'sm state_machine \<Rightarrow> 'sm state_machine" where
  "deliver F ev m = m\<lparr>fsm_state := sm_event F ev (fsm_state m)\<rparr>"

text \<open>
  Modelled from the spec: the timer scheduler (chewie/timer\_scheduler.py) is not under
  src/. Spec 4.2: "call\_later(delay\_s, fn, *args) \<rightarrow> JobHandle: schedule fn to run no earlier
  than now + delay" and "JobHandle.cancel(): idempotent; a cancelled job never fires". The
  scheduler is the list of the jobs it was given and the set of the handles that were
  cancelled; a handle is a job's position in the list. The clock is not modelled: a job
  keeps the delay it was scheduled with.
\<close>

datatype timer_callback =
    PreemptiveIdentityCheck string
  | ReauthPort mac_address string

record timer_job =
  job_delay :: nat
  job_callback :: timer_callback

record scheduler =
  jobs :: "timer_job list"
  cancelled :: "nat set"

definition call_later :: "nat \<Rightarrow> timer_callback \<Rightarrow> scheduler \<Rightarrow> nat \<times> scheduler" where
  "call_later d cb sch =
     (length (jobs sch), sch\<lparr>jobs := jobs sch @ [\<lparr>job_delay = d, job_callback = cb\<rparr>]\<rparr>)"

definition cancel :: "nat \<Rightarrow> scheduler \<Rightarrow> scheduler" where
  "cancel j sch = sch\<lparr>cancelled := insert j (cancelled sch)\<rparr>"

text \<open>What the dispatcher puts on the EAP output queue.\<close>

datatype eap_code = REQUEST | RESPONSE | SUCCESS | FAILURE

datatype out_message = IdentityMessage mac_address nat eap_code string

record eap_queue_message =
  q_message :: out_message
  q_src_mac :: mac_address
  q_port_mac :: mac_address

subsection \<open>The dispatcher's state\<close>

text \<open>
  The raw socket under an \<open>EapSocket\<close>: what its \<open>shutdown\<close> and its \<open>close\<close> are going
  to do when called, the exception raised or \<open>None\<close> for a normal return.
\<close>

record raw_socket =
  shutdown_raises :: "py_exception option"
  close_raises :: "py_exception option"

datatype os_call = Shutdown | Close

text \<open>
  \<open>PromiscuousSocket.__init__\<close> sets \<open>self.socket = None\<close>, \<open>open\<close> stores the raw socket.
  \<open>os_calls\<close> is the trace of the calls made on raw sockets, oldest first.
\<close>

record eap_socket =
  sock :: "raw_socket option"
  os_calls :: "os_call list"

text \<open>
  The fields of \<open>Chewie.__init__\<close> that the modelled methods touch, and \<open>running\<close>, which
  \<open>run\<close> sets before it spawns the loops (the only callers of the methods that read it) and
  which \<open>cleanup\<close> and \<open>stop\<close> clear; before \<open>run\<close> it counts as false here. Port
  identifiers are Python strings (the docstrings of \<open>port_up\<close>, \<open>port_down\<close> and
  \<open>reauth_port\<close> say \<open>port_id (str)\<close>), on which \<open>str\<close> is the identity. The inner
  dictionary of \<open>state_machines\<close> is iterated over, so it is a list of items in insertion
  order. \<open>random_ids\<close> is what the calls of \<open>get_random_id\<close> (chewie/utils.py, not
  under src/) are going to return, in order. \<open>slept\<close> holds the arguments of the calls of
  \<open>helper.sleep\<close> that have returned and \<open>error_log\<close> the messages of \<open>logger.error\<close>, oldest first.
\<close>

record 'sm chewie =
  running :: bool
  state_machines :: "string \<rightharpoonup> (string \<times> 'sm state_machine) list"
  port_to_eapol_id :: "string \<rightharpoonup> nat"
  port_status :: "string \<rightharpoonup> bool"
  port_to_identity_job :: "string \<rightharpoonup> nat"
  eap_output_messages :: "eap_queue_message list"
  timer_scheduler :: scheduler
  random_ids :: "nat stream"
  machines_created :: nat
  eap_socket :: "eap_socket option"
  slept :: "nat list"
  error_log :: "string list"

text \<open>The dispatcher that \<open>Chewie.__init__\<close> builds, not running yet.\<close>

definition Chewie_init :: "nat stream \<Rightarrow> 'sm chewie" where
  "Chewie_init ids =
     \<lparr>running = False,
      state_machines = Map.empty,
      port_to_eapol_id = Map.empty,
      port_status = Map.empty,
      port_to_identity_job = Map.empty,
      eap_output_messages = [],
      timer_scheduler = \<lparr>jobs = [], cancelled = {}\<rparr>,
      random_ids = ids,
      machines_created = 0,
      eap_socket = None,
      slept = [],
      error_log = []\<rparr>"

text \<open>\<open>self.state_machines.get(port_id, {})\<close>\<close>

definition port_machines :: "'sm chewie \<Rightarrow> string \<Rightarrow> (string \<times> 'sm state_machine) list" where
  "port_machines s p = (case state_machines s p of None \<Rightarrow> [] | Some ms \<Rightarrow> ms)"

text \<open>\<open>self.state_machines[port_id_str][src_mac_str] = state_machine\<close>\<close>

definition store_machine ::
  "string \<Rightarrow> string \<Rightarrow> 'sm state_machine \<Rightarrow> 'sm chewie \<Rightarrow> 'sm chewie" where
  "store_machine p k m s =
     s\<lparr>state_machines := (state_machines s)(p \<mapsto> AList.update k m (port_machines s p))\<rparr>"

subsection \<open>get\_state\_machine\<close>

text \<open>
  \<open>if not state_machine\<close> is \<open>state_machine is None\<close>: a machine object is true in Python.
\<close>

definition get_state_machine ::
  "'sm fsm \<Rightarrow> mac_address \<Rightarrow> mac_address \<Rightarrow> int \<Rightarrow> 'sm chewie \<Rightarrow> 'sm state_machine \<times> 'sm chewie" where
  "get_state_machine F src_mac port_id message_id s =
     (let port_id_str = str_mac port_id;
          src_mac_str = str_mac src_mac;
          s1 = (case state_machines s port_id_str of
                  None \<Rightarrow> s\<lparr>state_machines := (state_machines s)(port_id_str \<mapsto> [])\<rparr>
                | Some _ \<Rightarrow> s)
      in case map_of (port_machines s1 port_id_str) src_mac_str of
           Some state_machine \<Rightarrow> (state_machine, s1)
         | None \<Rightarrow>
             if message_id = - 2 then
               (let state_machine =
                      \<lparr>obj_id = machines_created s1,
                       kind = MacAuthenticationBypassStateMachine,
                       fsm_state = new_mab F port_id_str src_mac\<rparr>
                in (state_machine,
                    store_machine port_id_str src_mac_str state_machine
                      (s1\<lparr>machines_created := Suc (machines_created s1)\<rparr>)))
             else
               (let state_machine =
                      \<lparr>obj_id = machines_created s1,
                       kind = FullEAPStateMachine,
                       fsm_state = new_full_eap F port_id_str src_mac\<rparr>
                in (state_machine,
                    store_machine port_id_str src_mac_str state_machine
                      (s1\<lparr>machines_created := Suc (machines_created s1)\<rparr>))))"

text \<open>The machine stored for a port and a client, if any.\<close>

definition machine_at :: "'sm chewie \<Rightarrow> mac_address \<Rightarrow> mac_address \<Rightarrow> 'sm state_machine option" where
  "machine_at s port_id src_mac = map_of (port_machines s (str_mac port_id)) (str_mac src_mac)"

subsection \<open>Port status, port\_down and port\_up\<close>

definition set_port_status :: "'sm fsm \<Rightarrow> string \<Rightarrow> bool \<Rightarrow> 'sm chewie \<Rightarrow> 'sm chewie" where
  "set_port_status F port_id status s =
     (let port_id_str = port_id;
          s1 = s\<lparr>port_status := (port_status s)(port_id \<mapsto> status)\<rparr>;
          s2 = (case state_machines s1 port_id_str of
                  None \<Rightarrow> s1\<lparr>state_machines := (state_machines s1)(port_id_str \<mapsto> [])\<rparr>
                | Some _ \<Rightarrow> s1)
      in s2\<lparr>state_machines := (state_machines s2)(port_id_str \<mapsto>
              map (\<lambda>(k, state_machine). (k, deliver F (EventPortStatusChange status) state_machine))
                (port_machines s2 port_id_str))\<rparr>)"

text \<open>\<open>if job\<close> is \<open>job is not None\<close>: a job handle is true in Python.\<close>

definition port_down :: "'sm fsm \<Rightarrow> string \<Rightarrow> 'sm chewie \<Rightarrow> 'sm chewie" where
  "port_down F port_id s =
     (let s1 = set_port_status F port_id False s;
          job = port_to_identity_job s1 port_id;
          s2 = s1\<lparr>state_machines := (state_machines s1)(port_id := None)\<rparr>;
          s3 = (case job of
                  None \<Rightarrow> s2
                | Some j \<Rightarrow> s2\<lparr>timer_scheduler := cancel j (timer_scheduler s2)\<rparr>)
      in s3\<lparr>port_to_eapol_id := (port_to_eapol_id s3)(port_id := None)\<rparr>)"

definition port_up :: "'sm fsm \<Rightarrow> string \<Rightarrow> 'sm chewie \<Rightarrow> 'sm chewie" where
  "port_up F port_id s =
     (let s1 = set_port_status F port_id True s;
          (job, sch) = call_later DEFAULT_PORT_UP_IDENTITY_REQUEST_WAIT_PERIOD
                         (PreemptiveIdentityCheck port_id) (timer_scheduler s1)
      in s1\<lparr>timer_scheduler := sch,
            port_to_identity_job := (port_to_identity_job s1)(port_id \<mapsto> job)\<rparr>)"

text \<open>The handler \<open>auth_handler\<close> belongs to the embedding program and is left out.\<close>

definition auth_success :: "mac_address \<Rightarrow> string \<Rightarrow> nat \<Rightarrow> 'sm chewie \<Rightarrow> 'sm chewie" where
  "auth_success src_mac port_id period s =
     (let (job, sch) = call_later period (ReauthPort src_mac port_id) (timer_scheduler s)
      in s\<lparr>timer_scheduler := sch,
           port_to_identity_job := (port_to_identity_job s)(port_id \<mapsto> job)\<rparr>)"

subsection \<open>Preemptive identity requests\<close>

text \<open>
  \<open>while _id == state_machine.current_id: _id = get_random_id()\<close>. The loop has no bound:
  on a source of ids that keeps returning the current id it never ends, which is the
  value \<open>None\<close>.
\<close>

partial_function (option) redraw_while_equal :: "nat \<Rightarrow> nat \<Rightarrow> nat stream \<Rightarrow> (nat \<times> nat stream) option" where
  "redraw_while_equal cur i ids =
     (if i = cur then redraw_while_equal cur (shd ids) (stl ids) else Some (i, ids))"

definition send_preemptive_identity_request ::
  "'sm fsm \<Rightarrow> string \<Rightarrow> 'sm state_machine option \<Rightarrow> 'sm chewie \<Rightarrow> 'sm chewie option" where
  "send_preemptive_identity_request F port_id state_machine s =
     (let id0 = shd (random_ids s);
          ids0 = stl (random_ids s);
          drawn = (case state_machine of
                     None \<Rightarrow> Some (id0, ids0)
                   | Some m \<Rightarrow>
                       (case current_id F (fsm_state m) of
                          None \<Rightarrow> Some (id0, ids0)
                        | Some cur \<Rightarrow> redraw_while_equal cur id0 ids0))
      in case drawn of
           None \<Rightarrow> None
         | Some (i, ids) \<Rightarrow>
             Some (s\<lparr>random_ids := ids,
                     port_to_eapol_id := (port_to_eapol_id s)(port_id \<mapsto> i),
                     eap_output_messages := eap_output_messages s @
                       [\<lparr>q_message = IdentityMessage PAE_GROUP_ADDRESS i REQUEST [],
                         q_src_mac = PAE_GROUP_ADDRESS,
                         q_port_mac = from_string port_id\<rparr>]\<rparr>))"

text \<open>The \<open>for ... break ... else\<close> of the timer callback: is some machine of the port active?\<close>

definition port_is_active :: "'sm fsm \<Rightarrow> (string \<times> 'sm state_machine) list \<Rightarrow> bool" where
  "port_is_active F ms =
     list_ex (\<lambda>(k, sm). is_in_progress F (fsm_state sm) \<or> is_success F (fsm_state sm)) ms"

definition send_preemptive_identity_request_if_no_active_on_port ::
  "'sm fsm \<Rightarrow> string \<Rightarrow> 'sm chewie \<Rightarrow> 'sm chewie option" where
  "send_preemptive_identity_request_if_no_active_on_port F port_id s =
     (let (job, sch) = call_later DEFAULT_PREEMPTIVE_IDENTITY_REQUEST_INTERVAL
                         (PreemptiveIdentityCheck port_id) (timer_scheduler s);
          s1 = s\<lparr>timer_scheduler := sch,
                 port_to_identity_job := (port_to_identity_job s)(port_id \<mapsto> job)\<rparr>
      in if \<not> (case port_status s1 port_id of None \<Rightarrow> False | Some status \<Rightarrow> status) then Some s1
         else if port_is_active F (port_machines s1 port_id) then Some s1
         else send_preemptive_identity_request F port_id None s1)"

definition reauth_port :: "'sm fsm \<Rightarrow> mac_address \<Rightarrow> string \<Rightarrow> 'sm chewie \<Rightarrow> 'sm chewie option" where
  "reauth_port F src_mac port_id s =
     (case map_of (port_machines s port_id) (str_mac src_mac) of
        Some state_machine \<Rightarrow>
          if is_success F (fsm_state state_machine)
          then send_preemptive_identity_request F port_id (Some state_machine) s
          else Some s
      | None \<Rightarrow> Some s)"

subsection \<open>Routing inbound messages\<close>

definition send_eap_to_state_machine ::
  "'sm fsm \<Rightarrow> eap_message \<Rightarrow> mac_address \<Rightarrow> 'sm chewie \<Rightarrow> 'sm chewie" where
  "send_eap_to_state_machine F eap dst_mac s =
     (if \<not> running s then s
      else
        (let message_id = (case eap_message_id eap of None \<Rightarrow> - 1 | Some i \<Rightarrow> int i);
             (state_machine, s1) = get_state_machine F (eap_src_mac eap) dst_mac message_id s;
             preemptive_eap_message_id =
               (case port_to_eapol_id s1 (str_mac dst_mac) of None \<Rightarrow> - 2 | Some i \<Rightarrow> int i);
             event =
               (if message_id \<noteq> - 1 \<and> message_id = preemptive_eap_message_id
                then EventPreemptiveEAPResponseMessageReceived eap dst_mac preemptive_eap_message_id
                else EventMessageReceived (Eap eap) dst_mac)
         in store_machine (str_mac dst_mac) (str_mac (eap_src_mac eap))
              (deliver F event state_machine) s1))"

text \<open>
  \<open>EthernetPacket.parse\<close> (not under src/) is the parameter \<open>parse\<close>; it raises for a frame
  it cannot read.
\<close>

definition send_eth_to_state_machine ::
  "'sm fsm \<Rightarrow> (byte list \<Rightarrow> py_exception + ethernet_packet) \<Rightarrow> byte list \<Rightarrow> 'sm chewie
     \<Rightarrow> py_exception + 'sm chewie" where
  "send_eth_to_state_machine F parse packed_message s =
     (case parse packed_message of
        Inl e \<Rightarrow> Inl e
      | Inr ethernet_packet \<Rightarrow>
          (let port_id = eth_dst_mac ethernet_packet;
               src_mac = eth_src_mac ethernet_packet;
               message_id = - 2;
               (state_machine, s1) = get_state_machine F src_mac port_id message_id s;
               event = EventMessageReceived (Eth ethernet_packet) port_id
           in Inr (store_machine (str_mac port_id) (str_mac src_mac)
                     (deliver F event state_machine) s1)))"

text \<open>
  \<open>send_radius_to_state_machine\<close>: the event and the keys \<open>src_mac\<close>, \<open>port_id\<close> come from
  the RADIUS lifecycle (not under src/) and are arguments here; \<open>get_state_machine\<close> is
  called with its default \<open>message_id=-1\<close>.
\<close>

definition send_radius_to_state_machine ::
  "'sm fsm \<Rightarrow> event \<Rightarrow> mac_address \<Rightarrow> mac_address \<Rightarrow> 'sm chewie \<Rightarrow> 'sm chewie" where
  "send_radius_to_state_machine F event src_mac port_id s =
     (let (state_machine, s1) = get_state_machine F src_mac port_id (- 1) s
      in store_machine (str_mac port_id) (str_mac src_mac) (deliver F event state_machine) s1)"

subsection \<open>Sequences of calls on the dispatcher\<close>

text \<open>
  What can happen to a dispatcher between two moments: the calls of the switch control
  plane (\<open>port_up\<close>, \<open>port_down\<close>), the two timer callbacks, the three inbound paths, the
  callback \<open>auth_success\<close> of a machine, a change of \<open>self.running\<close>, and a machine changing
  its own state (\<open>MachineMoved\<close>: its timers, which are not under src/).
\<close>

datatype 'sm dispatcher_call =
    PortUp string
  | PortDown string
  | PreemptiveTimerFired string
  | ReauthTimerFired mac_address string
  | EapArrived eap_message mac_address
  | EthArrived "byte list"
  | RadiusArrived event mac_address mac_address
  | AuthSuccess mac_address string nat
  | RunningSet bool
  | MachineMoved string string 'sm

text \<open>
  One call. \<open>None\<close> is a call that never returns (the id loop), after which the program
  does nothing more. An exception of \<open>EthernetPacket.parse\<close> leaves the dispatcher as it was.
\<close>

fun step ::
  "'sm fsm \<Rightarrow> (byte list \<Rightarrow> py_exception + ethernet_packet) \<Rightarrow> 'sm dispatcher_call
     \<Rightarrow> 'sm chewie \<Rightarrow> 'sm chewie option" where
  "step F parse (PortUp p) s = Some (port_up F p s)"
| "step F parse (PortDown p) s = Some (port_down F p s)"
| "step F parse (PreemptiveTimerFired p) s =
     send_preemptive_identity_request_if_no_active_on_port F p s"
| "step F parse (ReauthTimerFired m p) s = reauth_port F m p s"
| "step F parse (EapArrived eap dst_mac) s = Some (send_eap_to_state_machine F eap dst_mac s)"
| "step F parse (EthArrived packed_message) s =
     (case send_eth_to_state_machine F parse packed_message s of
        Inl e \<Rightarrow> Some s
      | Inr s' \<Rightarrow> Some s')"
| "step F parse (RadiusArrived ev m p) s = Some (send_radius_to_state_machine F ev m p s)"
| "step F parse (AuthSuccess m p period) s = Some (auth_success m p period s)"
| "step F parse (RunningSet b) s = Some (s\<lparr>running := b\<rparr>)"
| "step F parse (MachineMoved p k st) s =
     (case map_of (port_machines s p) k of
        None \<Rightarrow> Some s
      | Some m \<Rightarrow> Some (store_machine p k (m\<lparr>fsm_state := st\<rparr>) s))"

fun run ::
  "'sm fsm \<Rightarrow> (byte list \<Rightarrow> py_exception + ethernet_packet) \<Rightarrow> 'sm dispatcher_call list
     \<Rightarrow> 'sm chewie \<Rightarrow> 'sm chewie option" where
  "run F parse [] s = Some s"
| "run F parse (c # cs) s =
     (case step F parse c s of None \<Rightarrow> None | Some s' \<Rightarrow> run F parse cs s')"

text \<open>Does the call bring a message that is routed to port \<open>P\<close>?\<close>

fun routed_to ::
  "(byte list \<Rightarrow> py_exception + ethernet_packet) \<Rightarrow> string \<Rightarrow> 'sm dispatcher_call \<Rightarrow> bool" where
  "routed_to parse P (EapArrived eap dst_mac) = (str_mac dst_mac = P)"
| "routed_to parse P (EthArrived packed_message) =
     (case parse packed_message of
        Inl e \<Rightarrow> False
      | Inr ethernet_packet \<Rightarrow> str_mac (eth_dst_mac ethernet_packet) = P)"
| "routed_to parse P (RadiusArrived ev m p) = (str_mac p = P)"
| "routed_to parse P _ = False"

subsection \<open>Two instances of the machine interface\<close>

text \<open>
  A machine that answers the observers from fields and records the events it is given.
\<close>

record recorder =
  rec_in_progress :: bool
  rec_success :: bool
  rec_current_id :: "nat option"
  rec_events :: "event list"

definition recording_fsm :: "recorder fsm" where
  "recording_fsm =
     \<lparr>new_full_eap = (\<lambda>p m. \<lparr>rec_in_progress = False, rec_success = False,
                               rec_current_id = None, rec_events = []\<rparr>),
      new_mab = (\<lambda>p m. \<lparr>rec_in_progress = False, rec_success = False,
                          rec_current_id = None, rec_events = []\<rparr>),
      sm_event = (\<lambda>ev r. r\<lparr>rec_events := rec_events r @ [ev]\<rparr>),
      is_in_progress = rec_in_progress,
      is_success = rec_success,
      current_id = rec_current_id\<rparr>"

text \<open>
  Modelled from the spec: the authenticator state machine is not under src/. Spec 4.5:
  "IDLE \<rightarrow> RECEIVED on EventMessageReceived carrying an EAP Response", "AAA\_REQUEST \<rightarrow>
  AAA\_IDLE after emitting a RADIUS Access-Request containing the response" and "Access-Accept
  \<rightarrow> SUCCESS2". Only what the dispatcher can observe is kept: a machine waits for the server
  once it was given a message, and is in success once the server's reply has reached it
  there. Neither a constructor nor an event tells a machine whether its port is up.
\<close>

datatype pae_state = PAE_IDLE | PAE_AAA_IDLE | PAE_SUCCESS2

fun pae_event :: "event \<Rightarrow> pae_state \<Rightarrow> pae_state" where
  "pae_event (EventMessageReceived msg p) PAE_IDLE = PAE_AAA_IDLE"
| "pae_event (EventPreemptiveEAPResponseMessageReceived eap p i) PAE_IDLE = PAE_AAA_IDLE"
| "pae_event (EventRadiusMessageReceived reply) PAE_AAA_IDLE = PAE_SUCCESS2"
| "pae_event (EventPortStatusChange b) st = (if b then st else PAE_IDLE)"
| "pae_event ev st = st"

definition pae_fsm :: "pae_state fsm" where
  "pae_fsm =
     \<lparr>new_full_eap = (\<lambda>p m. PAE_IDLE),
      new_mab = (\<lambda>p m. PAE_IDLE),
      sm_event = pae_event,
      is_in_progress = (\<lambda>st. st = PAE_AAA_IDLE),
      is_success = (\<lambda>st. st = PAE_SUCCESS2),
      current_id = (\<lambda>st. None)\<rparr>"

subsection \<open>The sockets of nfv\_sockets.py\<close>

text \<open>
  What \<open>loop.sock_recv\<close> is going to give to the calls made on a socket, in order: a frame
  or an exception. An empty list is a socket on which nothing arrives any more: the call
  never returns.
\<close>

datatype recv_item = Frame "byte list" | RecvRaises py_exception

datatype recv_result =
    Received "byte list" "recv_item list"
  | RecvRaised py_exception
  | RecvBlocked

text \<open>\<open>xs[i:j]\<close> for \<open>0 \<le> i \<le> j\<close>: shorter than \<open>j - i\<close> when \<open>xs\<close> ends before \<open>j\<close>.\<close>

definition py_slice :: "nat \<Rightarrow> nat \<Rightarrow> 'a list \<Rightarrow> 'a list" where
  "py_slice i j xs = take (j - i) (drop i xs)"

text \<open>\<open>struct.unpack('>H', b)[0]\<close>: \<open>struct.error\<close> unless \<open>b\<close> holds exactly two bytes.\<close>

definition unpack_H :: "byte list \<Rightarrow> py_exception + nat" where
  "unpack_H b = (case b of [hi, lo] \<Rightarrow> Inr (256 * unat hi + unat lo) | _ \<Rightarrow> Inl StructError)"

definition DHCP_UDP_SRC :: nat where
  "DHCP_UDP_SRC = 68"

definition DHCP_UDP_DST :: nat where
  "DHCP_UDP_DST = 67"

definition UDP_IPTYPE :: "byte list" where
  "UDP_IPTYPE = [0x11]"

fun MabSocket_receive :: "recv_item list \<Rightarrow> recv_result" where
  "MabSocket_receive [] = RecvBlocked"
| "MabSocket_receive (RecvRaises e # rest) = RecvRaised e"
| "MabSocket_receive (Frame pkt # rest) =
     (if py_slice 23 24 pkt = UDP_IPTYPE then
        (case unpack_H (py_slice 34 36 pkt) of
           Inl e \<Rightarrow> RecvRaised e
         | Inr src_port \<Rightarrow>
             (case unpack_H (py_slice 36 38 pkt) of
                Inl e \<Rightarrow> RecvRaised e
              | Inr dst_port \<Rightarrow>
                  if src_port = DHCP_UDP_SRC \<and> dst_port = DHCP_UDP_DST
                  then Received pkt rest
                  else MabSocket_receive rest))
      else MabSocket_receive rest)"

text \<open>The filter that the spec states for a frame.\<close>

definition is_dhcp_request :: "byte list \<Rightarrow> bool" where
  "is_dhcp_request pkt \<longleftrightarrow>
     py_slice 23 24 pkt = [0x11]
     \<and> unpack_H (py_slice 34 36 pkt) = Inr 68
     \<and> unpack_H (py_slice 36 38 pkt) = Inr 67"

text \<open>
  \<open>EapSocket.receive\<close>: one \<open>sock_recv\<close> on \<open>self.socket\<close>, which fails on \<open>None\<close>.
\<close>

definition EapSocket_receive :: "eap_socket \<Rightarrow> recv_item list \<Rightarrow> recv_result" where
  "EapSocket_receive es items =
     (case sock es of
        None \<Rightarrow> RecvRaised (OtherException ''AttributeError'')
      | Some raw \<Rightarrow>
          (case items of
             [] \<Rightarrow> RecvBlocked
           | Frame pkt # rest \<Rightarrow> Received pkt rest
           | RecvRaises e # rest \<Rightarrow> RecvRaised e))"

text \<open>\<open>try: ... except OSError: pass\<close> around a call that raises \<open>r\<close>, if anything.\<close>

definition except_OSError_pass :: "py_exception option \<Rightarrow> py_exception option" where
  "except_OSError_pass r = (case r of Some (OSError n) \<Rightarrow> None | _ \<Rightarrow> r)"

definition EapSocket_close :: "eap_socket \<Rightarrow> py_exception + eap_socket" where
  "EapSocket_close es =
     (case sock es of
        None \<Rightarrow> Inr es
      | Some raw \<Rightarrow>
          (case except_OSError_pass (shutdown_raises raw) of
             Some e \<Rightarrow> Inl e
           | None \<Rightarrow>
               (case except_OSError_pass (close_raises raw) of
                  Some e \<Rightarrow> Inl e
                | None \<Rightarrow> Inr (es\<lparr>sock := None, os_calls := os_calls es @ [Shutdown, Close]\<rparr>))))"

subsection \<open>The receive loops of chewie.py\<close>

text \<open>
  What one iteration of a receive loop meets: what \<open>sock_recv\<close> gives to the call of
  \<open>receive\<close> made in it, and whether another task clears \<open>self.running\<close> while the iteration
  is suspended in an \<open>await\<close>.
\<close>

record round =
  arrivals :: "recv_item list"
  stop_requested :: bool

text \<open>
  An iteration of the MAB loop also awaits \<open>helper.sleep\<close>, which is \<open>asyncio.sleep\<close>: a
  point where the task can be cancelled, as \<open>shutdown\<close> does with every task. The round
  says what the \<open>await sleep(0)\<close> at the head of the loop and the \<open>await sleep(2)\<close> of the
  handler raise, if anything.
\<close>

record mab_round = round +
  sleep_0_raises :: "py_exception option"
  sleep_2_raises :: "py_exception option"

datatype 'a loop_result = Returned 'a | Raised py_exception 'a | Blocked 'a

text \<open>
  \<open>await sleep(seconds)\<close>: it raises what it is given to raise, and returns otherwise,
  which \<open>slept\<close> records.
\<close>

definition sleep :: "nat \<Rightarrow> py_exception option \<Rightarrow> 'sm chewie \<Rightarrow> py_exception + 'sm chewie" where
  "sleep seconds raised s =
     (case raised of
        Some e \<Rightarrow> Inl e
      | None \<Rightarrow> Inr (s\<lparr>slept := slept s @ [seconds]\<rparr>))"

definition other_tasks :: "'a round_scheme \<Rightarrow> 'sm chewie \<Rightarrow> 'sm chewie" where
  "other_tasks r s = (if stop_requested r then s\<lparr>running := False\<rparr> else s)"

text \<open>
  The bare \<open>except:\<close> of \<open>receive_mab_messages\<close>; nothing protects the \<open>await sleep(2)\<close> in
  it.
\<close>

definition mab_except :: "py_exception option \<Rightarrow> 'sm chewie \<Rightarrow> py_exception + 'sm chewie" where
  "mab_except raised s =
     (case sleep 2 raised s of
        Inl e \<Rightarrow> Inl e
      | Inr s1 \<Rightarrow>
          Inr (if running s1
               then s1\<lparr>error_log := error_log s1 @ [''Error on receiving EAP message'']\<rparr>
               else s1))"

text \<open>
  \<open>receive_mab_messages\<close>. The \<open>await sleep(0)\<close> is outside the \<open>try\<close>: what it raises
  leaves the function, and so does what the handler raises. With no round left the task
  stays suspended.
\<close>

fun receive_mab_messages ::
  "'sm fsm \<Rightarrow> (byte list \<Rightarrow> py_exception + ethernet_packet) \<Rightarrow> mab_round list \<Rightarrow> 'sm chewie
     \<Rightarrow> ('sm chewie \<times> mab_round list) loop_result" where
  "receive_mab_messages F parse [] s =
     (if \<not> running s then Returned (s, []) else Blocked (s, []))"
| "receive_mab_messages F parse (r # rest) s =
     (if \<not> running s then Returned (s, r # rest)
      else
        (case sleep 0 (sleep_0_raises r) s of
           Inl e \<Rightarrow> Raised e (s, rest)
         | Inr s0 \<Rightarrow>
             (let s1 = other_tasks r s0
              in case MabSocket_receive (arrivals r) of
                   RecvBlocked \<Rightarrow> Blocked (s1, rest)
                 | RecvRaised e \<Rightarrow>
                     (case mab_except (sleep_2_raises r) s1 of
                        Inl e' \<Rightarrow> Raised e' (s1, rest)
                      | Inr s2 \<Rightarrow> receive_mab_messages F parse rest s2)
                 | Received packed_message remaining \<Rightarrow>
                     (case send_eth_to_state_machine F parse packed_message s1 of
                        Inl e \<Rightarrow>
                          (case mab_except (sleep_2_raises r) s1 of
                             Inl e' \<Rightarrow> Raised e' (s1, rest)
                           | Inr s2 \<Rightarrow> receive_mab_messages F parse rest s2)
                      | Inr s2 \<Rightarrow> receive_mab_messages F parse rest s2))))"

text \<open>\<open>if not self.eap_socket or not self.eap_socket.socket\<close>\<close>

definition eap_socket_gone :: "'sm chewie \<Rightarrow> bool" where
  "eap_socket_gone s = (case eap_socket s of None \<Rightarrow> True | Some es \<Rightarrow> sock es = None)"

text \<open>
  The \<open>while\<close> loop of \<open>receive_eap_messages\<close>. \<open>MessageParser.ethernet_parse\<close> (not under
  src/) is the parameter \<open>parse\<close>.
\<close>

fun eap_receive_loop ::
  "'sm fsm \<Rightarrow> (byte list \<Rightarrow> py_exception + eap_message \<times> mac_address) \<Rightarrow> round list \<Rightarrow> 'sm chewie
     \<Rightarrow> ('sm chewie \<times> round list) loop_result" where
  "eap_receive_loop F parse [] s =
     (if \<not> running s then Returned (s, [])
      else if eap_socket_gone s then Returned (s, [])
      else Blocked (s, []))"
| "eap_receive_loop F parse (r # rest) s =
     (if \<not> running s then Returned (s, r # rest)
      else case eap_socket s of
        None \<Rightarrow> Returned (s, r # rest)
      | Some es \<Rightarrow>
          if sock es = None then Returned (s, r # rest)
          else
            (let s1 = other_tasks r s
             in case EapSocket_receive es (arrivals r) of
                  RecvBlocked \<Rightarrow> Blocked (s1, rest)
                | RecvRaised e \<Rightarrow> Raised e (s1, rest)
                | Received packed_message remaining \<Rightarrow>
                    (case parse packed_message of
                       Inl MessageParseError \<Rightarrow> eap_receive_loop F parse rest s1
                     | Inl (OSError n) \<Rightarrow>
                         if n = 100 then Returned (s1, rest) else Raised (OSError n) (s1, rest)
                     | Inl e \<Rightarrow> Raised e (s1, rest)
                     | Inr (eap, dst_mac) \<Rightarrow>
                         eap_receive_loop F parse rest (send_eap_to_state_machine F eap dst_mac s1))))"

text \<open>The \<open>finally\<close> clause: \<open>if hasattr(self.eap_socket, 'close'): self.eap_socket.close()\<close>\<close>

definition close_eap_socket :: "'sm chewie \<Rightarrow> py_exception + 'sm chewie" where
  "close_eap_socket s =
     (case eap_socket s of
        None \<Rightarrow> Inr s
      | Some es \<Rightarrow>
          (case EapSocket_close es of
             Inl e \<Rightarrow> Inl e
           | Inr es' \<Rightarrow> Inr (s\<lparr>eap_socket := Some es'\<rparr>)))"

text \<open>
  The whole of \<open>receive_eap_messages\<close>: an \<open>OSError\<close> or a \<open>CancelledError\<close> of the loop ends
  the task normally, any other exception leaves it, after the \<open>finally\<close> clause in each
  case; an exception of the \<open>finally\<close> clause replaces the outcome.
\<close>

definition receive_eap_messages ::
  "'sm fsm \<Rightarrow> (byte list \<Rightarrow> py_exception + eap_message \<times> mac_address) \<Rightarrow> round list \<Rightarrow> 'sm chewie
     \<Rightarrow> ('sm chewie \<times> round list) loop_result" where
  "receive_eap_messages F parse rounds s =
     (case eap_receive_loop F parse rounds s of
        Blocked x \<Rightarrow> Blocked x
      | Returned (s', rest) \<Rightarrow>
          (case close_eap_socket s' of
             Inl e \<Rightarrow> Raised e (s', rest)
           | Inr s'' \<Rightarrow> Returned (s'', rest))
      | Raised e (s', rest) \<Rightarrow>
          (case close_eap_socket s' of
             Inl e' \<Rightarrow> Raised e' (s', rest)
           | Inr s'' \<Rightarrow>
               (case e of
                  OSError n \<Rightarrow> Returned (s'', rest)
                | CancelledError \<Rightarrow> Returned (s'', rest)
                | _ \<Rightarrow> Raised e (s'', rest))))"

text \<open>\<open>Chewie.cleanup\<close>, without the RADIUS socket.\<close>

definition cleanup :: "'sm chewie \<Rightarrow> py_exception + 'sm chewie" where
  "cleanup s = close_eap_socket (s\<lparr>running := False\<rparr>)"

subsection \<open>Terms used in the statements\<close>

text \<open>
  What the timer callback does first: the check is scheduled again, 60 seconds later, and
  the new job replaces the port's entry of \<open>port_to_identity_job\<close>.
\<close>

definition rescheduled :: "string \<Rightarrow> 'sm chewie \<Rightarrow> 'sm chewie" where
  "rescheduled P t = t\<lparr>timer_scheduler := (timer_scheduler t)\<lparr>jobs := jobs (timer_scheduler t) @
             [\<lparr>job_delay = 60, job_callback = PreemptiveIdentityCheck P\<rparr>]\<rparr>,
           port_to_identity_job := (port_to_identity_job t)(P \<mapsto> length (jobs (timer_scheduler t)))\<rparr>"

text \<open>
  A running dispatcher with two clients on one port: the first is authenticated and its
  last identifier was 5, the second is in the middle of an authentication whose current
  identifier is 7. The next call of \<open>get_random_id\<close> is going to return 7.
\<close>

definition two_sessions :: "recorder chewie" where
  "two_sessions =
     (Chewie_init (7 ## sconst 0))
       \<lparr>running := True,
        state_machines :=
          [''00:00:00:00:00:10'' \<mapsto>
             [(''aa:bb:cc:dd:ee:01'',
               \<lparr>obj_id = 0, kind = FullEAPStateMachine,
                fsm_state = \<lparr>rec_in_progress = False, rec_success = True,
                              rec_current_id = Some 5, rec_events = []\<rparr>\<rparr>),
              (''aa:bb:cc:dd:ee:02'',
               \<lparr>obj_id = 1, kind = FullEAPStateMachine,
                fsm_state = \<lparr>rec_in_progress = True, rec_success = False,
                              rec_current_id = Some 7, rec_events = []\<rparr>\<rparr>)]],
        port_status := [''00:00:00:00:00:10'' \<mapsto> True],
        machines_created := 2\<rparr>"

text \<open>
  The event that the spec states for an inbound EAP message on port \<open>P\<close>: the preemptive
  one exactly when the message has an identifier and it is the one recorded for the port.
\<close>

definition routed_event :: "'sm chewie \<Rightarrow> eap_message \<Rightarrow> mac_address \<Rightarrow> event" where
  "routed_event s eap P =
     (case eap_message_id eap of
        None \<Rightarrow> EventMessageReceived (Eap eap) P
      | Some i \<Rightarrow>
          if port_to_eapol_id s (str_mac P) = Some i
          then EventPreemptiveEAPResponseMessageReceived eap P (int i)
          else EventMessageReceived (Eap eap) P)"

text \<open>
  A running dispatcher that has sent a preemptive request with identifier 7 on a port, and
  a client's reply to it.
\<close>

definition awaiting_reply :: "recorder chewie" where
  "awaiting_reply =
     (Chewie_init (sconst 0))
       \<lparr>running := True,
        port_status := [''00:00:00:00:00:10'' \<mapsto> True],
        port_to_eapol_id := [''00:00:00:00:00:10'' \<mapsto> 7]\<rparr>"

definition reply_7 :: eap_message where
  "reply_7 = \<lparr>eap_src_mac = MacAddress ''aa:bb:cc:dd:ee:01'', eap_message_id = Some 7, eap_body = []\<rparr>"

text \<open>A parser that can read no frame.\<close>

definition unreadable :: "byte list \<Rightarrow> py_exception + 'a" where
  "unreadable packed_message = Inl MessageParseError"

text \<open>
  A running dispatcher on which a port has come up, and what arrives after the port has
  gone down again: a message of a client, the server's reply for this client, the
  machine's call of \<open>auth_success\<close>, and the firing of the reauth job that this call has
  scheduled.
\<close>

definition port_10_up :: "pae_state chewie" where
  "port_10_up = port_up pae_fsm ''00:00:00:00:00:10'' ((Chewie_init (7 ## sconst 0))\<lparr>running := True\<rparr>)"

definition late_session :: "pae_state dispatcher_call list" where
  "late_session =
     [EapArrived \<lparr>eap_src_mac = MacAddress ''aa:bb:cc:dd:ee:01'', eap_message_id = Some 1, eap_body = []\<rparr>
        (MacAddress ''00:00:00:00:00:10''),
      RadiusArrived (EventRadiusMessageReceived []) (MacAddress ''aa:bb:cc:dd:ee:01'')
        (MacAddress ''00:00:00:00:00:10''),
      AuthSuccess (MacAddress ''aa:bb:cc:dd:ee:01'') ''00:00:00:00:00:10'' 60,
      ReauthTimerFired (MacAddress ''aa:bb:cc:dd:ee:01'') ''00:00:00:00:00:10'']"

text \<open>
  Two IPv4 frames whose protocol byte (offset 23) is UDP: one that ends right after this
  byte, and one with a UDP header from port 68 to port 67.
\<close>

definition short_udp_frame :: "byte list" where
  "short_udp_frame = replicate 12 0 @ [0x08, 0x00] @ replicate 9 0 @ [0x11]"

definition dhcp_frame :: "byte list" where
  "dhcp_frame = replicate 12 0 @ [0x08, 0x00] @ replicate 9 0 @ [0x11] @ replicate 10 0
                 @ [0, 68, 0, 67] @ replicate 4 0"

text \<open>
  The methods \<open>shutdown\<close> and \<open>close\<close> of Python's socket objects raise \<open>OSError\<close> and
  nothing else.
\<close>

definition raises_only_OSError :: "py_exception option \<Rightarrow> bool" where
  "raises_only_OSError r = (case r of None \<Rightarrow> True | Some (OSError n) \<Rightarrow> True | Some _ \<Rightarrow> False)"

text \<open>
  A socket that was never connected: its \<open>shutdown\<close> raises \<open>OSError\<close> (ENOTCONN, 107).
\<close>

definition unconnected :: eap_socket where
  "unconnected = \<lparr>sock = Some \<lparr>shutdown_raises = Some (OSError 107), close_raises = None\<rparr>,
                  os_calls = []\<rparr>"

section \<open>Properties\<close>

subsection \<open>Looking machines up\<close>

lemma port_machines_upd_same [simp]:
  "port_machines (s\<lparr>state_machines := (state_machines s)(p \<mapsto> ms)\<rparr>) p = ms"
  by (simp add: port_machines_def)

lemma port_machines_store_same [simp]:
  "port_machines (store_machine p k m s) p = AList.update k m (port_machines s p)"
  by (simp add: store_machine_def port_machines_def)

lemma port_machines_machines_created [simp]:
  "port_machines (s\<lparr>machines_created := n\<rparr>) p = port_machines s p"
  by (simp add: port_machines_def)

lemma get_state_machine_existing:
  assumes "machine_at s P m = Some sm"
  shows "get_state_machine F m P k s = (sm, s)"
proof -
  from assms obtain ms where ms: "state_machines s (str_mac P) = Some ms"
    by (auto simp: machine_at_def port_machines_def split: option.splits)
  with assms show ?thesis
    by (simp add: get_state_machine_def machine_at_def Let_def)
qed

lemma get_state_machine_stores:
  "machine_at (snd (get_state_machine F m P k s)) P m = Some (fst (get_state_machine F m P k s))"
  by (auto simp: get_state_machine_def machine_at_def Let_def update_conv'
           split: option.splits)

lemma get_state_machine_new:
  assumes "machine_at s P m = None"
  shows "machines_created (snd (get_state_machine F m P k s)) = Suc (machines_created s)
    \<and> obj_id (fst (get_state_machine F m P k s)) = machines_created s
    \<and> kind (fst (get_state_machine F m P k s)) =
        (if k = - 2 then MacAuthenticationBypassStateMachine else FullEAPStateMachine)"
  using assms
  by (auto simp: get_state_machine_def machine_at_def Let_def store_machine_def port_machines_def
           split: option.splits)

subsection \<open>One machine per port and client\<close>

text \<open>
  C7. Session creation is idempotent, with one machine per (port, client MAC): a machine
  that is already stored for (P, m) is returned as it is and the dispatcher is left
  unchanged, whatever the message id k (also the MAB marker -2, so a stored EAP machine is
  never replaced by a MAB machine); a machine is constructed only when none was stored for
  (P, m), and it is then stored there; and a second call, with any message id, returns the
  very machine that the first one returned and constructs nothing.
\<close>

theorem get_state_machine_idempotent:
  fixes F :: "'sm fsm"
  shows "(\<forall>sm. machine_at s P m = Some sm \<longrightarrow> get_state_machine F m P k s = (sm, s))
    \<and> (machine_at s P m = None \<longrightarrow>
          machines_created (snd (get_state_machine F m P k s)) = Suc (machines_created s)
          \<and> obj_id (fst (get_state_machine F m P k s)) = machines_created s
          \<and> kind (fst (get_state_machine F m P k s)) =
              (if k = - 2 then MacAuthenticationBypassStateMachine else FullEAPStateMachine))
    \<and> machine_at (snd (get_state_machine F m P k s)) P m = Some (fst (get_state_machine F m P k s))
    \<and> get_state_machine F m P k' (snd (get_state_machine F m P k s))
        = get_state_machine F m P k s"
proof -
  obtain sm s1 where r: "get_state_machine F m P k s = (sm, s1)"
    by (cases "get_state_machine F m P k s")
  have stored: "machine_at s1 P m = Some sm"
    using get_state_machine_stores [of F m P k s] r by simp
  have c: "get_state_machine F m P k' s1 = (sm, s1)"
    using stored by (rule get_state_machine_existing)
  show ?thesis
    using get_state_machine_existing [of s P m _ F k] get_state_machine_new [of s P m F k]
      stored c r by simp
qed

text \<open>
  On a new dispatcher, an EAP message creates an EAP machine for the client; the DHCP frame
  that follows (message id -2) gets that machine, not a MAB machine.
\<close>

theorem get_state_machine_idempotent_witness:
  "fst (get_state_machine recording_fsm (MacAddress ''aa:bb:cc:dd:ee:01'')
          (MacAddress ''00:00:00:00:00:10'') (- 2)
          (snd (get_state_machine recording_fsm (MacAddress ''aa:bb:cc:dd:ee:01'')
                  (MacAddress ''00:00:00:00:00:10'') (- 1) (Chewie_init (sconst 0)))))
   = \<lparr>obj_id = 0, kind = FullEAPStateMachine,
      fsm_state = \<lparr>rec_in_progress = False, rec_success = False,
                    rec_current_id = None, rec_events = []\<rparr>\<rparr>"
  using get_state_machine_idempotent [of "Chewie_init (sconst 0)"
      "MacAddress ''00:00:00:00:00:10''" "MacAddress ''aa:bb:cc:dd:ee:01''"
      recording_fsm "- 1" "- 2"]
  by (simp add: get_state_machine_def Chewie_init_def recording_fsm_def port_machines_def
        store_machine_def Let_def)

subsection \<open>port\_down\<close>

lemma set_port_status_fields:
  "port_status (set_port_status F P b s) = (port_status s)(P \<mapsto> b)"
  "port_to_eapol_id (set_port_status F P b s) = port_to_eapol_id s"
  "port_to_identity_job (set_port_status F P b s) = port_to_identity_job s"
  "timer_scheduler (set_port_status F P b s) = timer_scheduler s"
  "eap_output_messages (set_port_status F P b s) = eap_output_messages s"
  "random_ids (set_port_status F P b s) = random_ids s"
  "machines_created (set_port_status F P b s) = machines_created s"
  "running (set_port_status F P b s) = running s"
  by (simp_all add: set_port_status_def Let_def split: option.splits)

lemma set_port_status_machines_other:
  "Q \<noteq> P \<Longrightarrow> state_machines (set_port_status F P b s) Q = state_machines s Q"
  by (simp add: set_port_status_def Let_def split: option.splits)

lemma set_port_status_machines_same:
  "state_machines (set_port_status F P b s) P =
     Some (map (\<lambda>(k, m). (k, deliver F (EventPortStatusChange b) m)) (port_machines s P))"
  by (simp add: set_port_status_def Let_def port_machines_def split: option.splits)

text \<open>
  C3. For every port P, \<open>port_down(P)\<close> clears the dispatcher's state for P and touches no
  other port: afterwards \<open>state_machines\<close> has no entry for P, the job that
  \<open>port_to_identity_job\<close> held for P is cancelled, \<open>port_to_eapol_id\<close> has no entry for P,
  \<open>port_status[P]\<close> is false, and the entries of the four dictionaries for every other port
  are as before. No job is added, and no job is cancelled but the one of P.
\<close>

theorem port_down_clears_port:
  fixes F :: "'sm fsm"
  shows "state_machines (port_down F P s) P = None
    \<and> (\<forall>j. port_to_identity_job s P = Some j \<longrightarrow> j \<in> cancelled (timer_scheduler (port_down F P s)))
    \<and> port_to_eapol_id (port_down F P s) P = None
    \<and> port_status (port_down F P s) P = Some False
    \<and> (\<forall>Q. Q \<noteq> P \<longrightarrow>
          state_machines (port_down F P s) Q = state_machines s Q
          \<and> port_to_eapol_id (port_down F P s) Q = port_to_eapol_id s Q
          \<and> port_to_identity_job (port_down F P s) Q = port_to_identity_job s Q
          \<and> port_status (port_down F P s) Q = port_status s Q)
    \<and> jobs (timer_scheduler (port_down F P s)) = jobs (timer_scheduler s)
    \<and> cancelled (timer_scheduler (port_down F P s)) =
        cancelled (timer_scheduler s) \<union> {j. port_to_identity_job s P = Some j}"
  by (cases "port_to_identity_job s P")
     (simp_all add: port_down_def Let_def set_port_status_fields set_port_status_machines_other
        cancel_def)

text \<open>
  Two ports come up, the first goes down: its job (handle 0) is cancelled, the second port
  is still up and its job is not cancelled.
\<close>

theorem port_down_clears_port_witness:
  "port_status (port_down recording_fsm ''00:00:00:00:00:10''
      (port_up recording_fsm ''00:00:00:00:00:20''
        (port_up recording_fsm ''00:00:00:00:00:10'' (Chewie_init (sconst 0)))))
     ''00:00:00:00:00:20'' = Some True
   \<and> cancelled (timer_scheduler (port_down recording_fsm ''00:00:00:00:00:10''
      (port_up recording_fsm ''00:00:00:00:00:20''
        (port_up recording_fsm ''00:00:00:00:00:10'' (Chewie_init (sconst 0)))))) = {0}"
  using port_down_clears_port [of recording_fsm "''00:00:00:00:00:10''"
      "port_up recording_fsm ''00:00:00:00:00:20''
         (port_up recording_fsm ''00:00:00:00:00:10'' (Chewie_init (sconst 0)))"]
  by (simp add: port_up_def set_port_status_def Chewie_init_def call_later_def Let_def
        port_machines_def DEFAULT_PORT_UP_IDENTITY_REQUEST_WAIT_PERIOD_def)

subsection \<open>The identifier loop\<close>

lemma redraw_while_equal_differs:
  assumes "redraw_while_equal cur i ids = Some y"
  shows "fst y \<noteq> cur"
  by (rule redraw_while_equal.raw_induct [where P = "\<lambda>cur i ids y. fst y \<noteq> cur", OF _ assms])
     (auto split: if_splits)

lemma redraw_while_equal_returns:
  "(i ## ids) !! n \<noteq> cur \<Longrightarrow> \<exists>y. redraw_while_equal cur i ids = Some y"
proof (induction n arbitrary: i ids)
  case 0
  then show ?case by (simp add: redraw_while_equal.simps)
next
  case (Suc n)
  show ?case
  proof (cases "i = cur")
    case True
    from Suc.prems have "(shd ids ## stl ids) !! n \<noteq> cur" by simp
    from Suc.IH [OF this] True show ?thesis
      by (subst redraw_while_equal.simps) simp
  next
    case False
    then show ?thesis by (simp add: redraw_while_equal.simps)
  qed
qed

lemma port_is_active_iff:
  "port_is_active F ms \<longleftrightarrow>
     (\<exists>sm \<in> snd ` set ms. is_in_progress F (fsm_state sm) \<or> is_success F (fsm_state sm))"
  by (force simp: port_is_active_def list_ex_iff)

lemma port_machines_upd_other [simp]:
  "port_machines (s\<lparr>timer_scheduler := x\<rparr>) p = port_machines s p"
  "port_machines (s\<lparr>port_to_identity_job := y\<rparr>) p = port_machines s p"
  by (simp_all add: port_machines_def)

subsection \<open>port\_up and the preemptive identity check\<close>

lemma port_up_result:
  "port_status (port_up F P s) P = Some True
    \<and> jobs (timer_scheduler (port_up F P s)) =
        jobs (timer_scheduler s) @ [\<lparr>job_delay = 20, job_callback = PreemptiveIdentityCheck P\<rparr>]
    \<and> port_to_identity_job (port_up F P s) P = Some (length (jobs (timer_scheduler s)))"
  by (simp add: port_up_def Let_def call_later_def set_port_status_fields
        DEFAULT_PORT_UP_IDENTITY_REQUEST_WAIT_PERIOD_def)

lemma preemptive_check_result:
  "send_preemptive_identity_request_if_no_active_on_port F P t =
     (if port_status t P = Some True
         \<and> (\<forall>sm \<in> snd ` set (port_machines t P).
               \<not> is_in_progress F (fsm_state sm) \<and> \<not> is_success F (fsm_state sm))
      then Some ((rescheduled P t)
             \<lparr>random_ids := stl (random_ids t),
               port_to_eapol_id := (port_to_eapol_id t)(P \<mapsto> shd (random_ids t)),
               eap_output_messages := eap_output_messages t @
                 [\<lparr>q_message = IdentityMessage PAE_GROUP_ADDRESS (shd (random_ids t)) REQUEST [],
                   q_src_mac = PAE_GROUP_ADDRESS,
                   q_port_mac = from_string P\<rparr>]\<rparr>)
      else Some (rescheduled P t))"
  by (cases "port_status t P")
     (auto simp: send_preemptive_identity_request_if_no_active_on_port_def Let_def call_later_def
        send_preemptive_identity_request_def port_is_active_iff rescheduled_def
        DEFAULT_PREEMPTIVE_IDENTITY_REQUEST_INTERVAL_def)

text \<open>
  C6. \<open>port_up(P)\<close> sets \<open>port_status[P]\<close> to true and schedules the preemptive identity
  check of P with a delay of 20 seconds, keeping the job in \<open>port_to_identity_job[P]\<close>. A
  firing of the check, in any state t, first schedules itself again with a delay of 60
  seconds; then it puts an EAP Identity Request to the PAE group address on the EAP output
  queue, recording its identifier in \<open>port_to_eapol_id[P]\<close>, if and only if \<open>port_status[P]\<close>
  is true and no machine of P reports in-progress or success; otherwise it does nothing
  more.
\<close>

theorem port_up_schedules_preemptive_check:
  fixes F :: "'sm fsm"
  shows "port_status (port_up F P s) P = Some True
    \<and> jobs (timer_scheduler (port_up F P s)) =
        jobs (timer_scheduler s) @ [\<lparr>job_delay = 20, job_callback = PreemptiveIdentityCheck P\<rparr>]
    \<and> port_to_identity_job (port_up F P s) P = Some (length (jobs (timer_scheduler s)))
    \<and> send_preemptive_identity_request_if_no_active_on_port F P t =
        (if port_status t P = Some True
            \<and> (\<forall>sm \<in> snd ` set (port_machines t P).
                  \<not> is_in_progress F (fsm_state sm) \<and> \<not> is_success F (fsm_state sm))
         then Some ((rescheduled P t)
                \<lparr>random_ids := stl (random_ids t),
                  port_to_eapol_id := (port_to_eapol_id t)(P \<mapsto> shd (random_ids t)),
                  eap_output_messages := eap_output_messages t @
                    [\<lparr>q_message = IdentityMessage PAE_GROUP_ADDRESS (shd (random_ids t)) REQUEST [],
                      q_src_mac = PAE_GROUP_ADDRESS,
                      q_port_mac = from_string P\<rparr>]\<rparr>)
         else Some (rescheduled P t))"
  using port_up_result [of F P s] preemptive_check_result [of F P t] by blast

text \<open>
  A port comes up on a new dispatcher and the check fires: one request with the identifier
  drawn (7) is queued, and the jobs are the one of 20 seconds and the one of 60 seconds. On
  a port with an authenticated client the check queues nothing.
\<close>

theorem port_up_schedules_preemptive_check_witness:
  "map_option eap_output_messages
     (send_preemptive_identity_request_if_no_active_on_port recording_fsm ''00:00:00:00:00:10''
        (port_up recording_fsm ''00:00:00:00:00:10'' (Chewie_init (7 ## sconst 0))))
     = Some [\<lparr>q_message = IdentityMessage PAE_GROUP_ADDRESS 7 REQUEST [],
              q_src_mac = PAE_GROUP_ADDRESS,
              q_port_mac = from_string ''00:00:00:00:00:10''\<rparr>]
   \<and> map_option eap_output_messages
       (send_preemptive_identity_request_if_no_active_on_port recording_fsm ''00:00:00:00:00:10''
          two_sessions) = Some []
   \<and> map_option (\<lambda>s. jobs (timer_scheduler s))
       (send_preemptive_identity_request_if_no_active_on_port recording_fsm ''00:00:00:00:00:10''
          (port_up recording_fsm ''00:00:00:00:00:10'' (Chewie_init (7 ## sconst 0))))
     = Some [\<lparr>job_delay = 20, job_callback = PreemptiveIdentityCheck ''00:00:00:00:00:10''\<rparr>,
             \<lparr>job_delay = 60, job_callback = PreemptiveIdentityCheck ''00:00:00:00:00:10''\<rparr>]"
  using port_up_schedules_preemptive_check
    [of recording_fsm "''00:00:00:00:00:10''" "Chewie_init (7 ## sconst 0)"
        "port_up recording_fsm ''00:00:00:00:00:10'' (Chewie_init (7 ## sconst 0))"]
    port_up_schedules_preemptive_check
    [of recording_fsm "''00:00:00:00:00:10''" "Chewie_init (7 ## sconst 0)" two_sessions]
  by (simp add: port_up_def set_port_status_def two_sessions_def port_machines_def Chewie_init_def
        recording_fsm_def Let_def call_later_def rescheduled_def
        DEFAULT_PORT_UP_IDENTITY_REQUEST_WAIT_PERIOD_def)

subsection \<open>Requests to authenticate again\<close>

lemma send_preemptive_identity_request_result:
  assumes "send_preemptive_identity_request F P mo s = Some s'"
  shows "\<exists>i ids. s' = s\<lparr>random_ids := ids,
                     port_to_eapol_id := (port_to_eapol_id s)(P \<mapsto> i),
                     eap_output_messages := eap_output_messages s @
                       [\<lparr>q_message = IdentityMessage PAE_GROUP_ADDRESS i REQUEST [],
                         q_src_mac = PAE_GROUP_ADDRESS,
                         q_port_mac = from_string P\<rparr>]\<rparr>
          \<and> (\<forall>m cur. mo = Some m \<and> current_id F (fsm_state m) = Some cur \<longrightarrow> i \<noteq> cur)"
proof -
  define drawn where "drawn =
    (case mo of
       None \<Rightarrow> Some (shd (random_ids s), stl (random_ids s))
     | Some m \<Rightarrow>
         (case current_id F (fsm_state m) of
            None \<Rightarrow> Some (shd (random_ids s), stl (random_ids s))
          | Some cur \<Rightarrow> redraw_while_equal cur (shd (random_ids s)) (stl (random_ids s))))"
  from assms obtain i ids where d: "drawn = Some (i, ids)"
    and s': "s' = s\<lparr>random_ids := ids,
                     port_to_eapol_id := (port_to_eapol_id s)(P \<mapsto> i),
                     eap_output_messages := eap_output_messages s @
                       [\<lparr>q_message = IdentityMessage PAE_GROUP_ADDRESS i REQUEST [],
                         q_src_mac = PAE_GROUP_ADDRESS,
                         q_port_mac = from_string P\<rparr>]\<rparr>"
    unfolding send_preemptive_identity_request_def Let_def drawn_def [symmetric]
    by (cases drawn) auto
  have "i \<noteq> cur" if "mo = Some m" and "current_id F (fsm_state m) = Some cur" for m cur
  proof -
    from d that
    have "redraw_while_equal cur (shd (random_ids s)) (stl (random_ids s)) = Some (i, ids)"
      by (simp add: drawn_def)
    from redraw_while_equal_differs [OF this] show ?thesis by simp
  qed
  with s' show ?thesis by blast
qed

lemma send_preemptive_identity_request_returns:
  assumes "\<forall>m cur. mo = Some m \<and> current_id F (fsm_state m) = Some cur \<longrightarrow> (\<exists>n. random_ids s !! n \<noteq> cur)"
  shows "\<exists>s'. send_preemptive_identity_request F P mo s = Some s'"
proof (cases mo)
  case None
  then show ?thesis by (simp add: send_preemptive_identity_request_def Let_def)
next
  case (Some m)
  show ?thesis
  proof (cases "current_id F (fsm_state m)")
    case None
    with Some show ?thesis by (simp add: send_preemptive_identity_request_def Let_def)
  next
    case (Some cur)
    with \<open>mo = Some m\<close> assms obtain n where "random_ids s !! n \<noteq> cur" by blast
    then have "(shd (random_ids s) ## stl (random_ids s)) !! n \<noteq> cur" by simp
    from redraw_while_equal_returns [OF this] obtain y
      where "redraw_while_equal cur (shd (random_ids s)) (stl (random_ids s)) = Some y" ..
    with Some \<open>mo = Some m\<close> show ?thesis
      by (cases y) (simp add: send_preemptive_identity_request_def Let_def)
  qed
qed

text \<open>
  C10. \<open>reauth_port(m, P)\<close> puts an EAP Identity Request on the EAP output queue if and
  only if a machine is stored for (P, m) and reports success; when there is no machine for
  (P, m), or the machine does not report success, the call emits nothing and leaves the
  dispatcher as it was. The call returns provided that, when the machine has a current
  identifier, the source of random identifiers gives some other identifier at some point
  (the identifier loop of the source has no bound).
\<close>

theorem reauth_port_emits_iff_success:
  fixes F :: "'sm fsm"
  assumes "\<forall>sm cur. map_of (port_machines s P) (str_mac m) = Some sm
             \<and> current_id F (fsm_state sm) = Some cur \<longrightarrow> (\<exists>n. random_ids s !! n \<noteq> cur)"
  shows "\<exists>s'. reauth_port F m P s = Some s'
    \<and> (if \<exists>sm. map_of (port_machines s P) (str_mac m) = Some sm \<and> is_success F (fsm_state sm)
        then \<exists>i. eap_output_messages s' = eap_output_messages s @
                    [\<lparr>q_message = IdentityMessage PAE_GROUP_ADDRESS i REQUEST [],
                      q_src_mac = PAE_GROUP_ADDRESS,
                      q_port_mac = from_string P\<rparr>]
                \<and> port_to_eapol_id s' = (port_to_eapol_id s)(P \<mapsto> i)
                \<and> state_machines s' = state_machines s
                \<and> port_status s' = port_status s
        else s' = s)"
proof (cases "map_of (port_machines s P) (str_mac m)")
  case None
  then show ?thesis by (simp add: reauth_port_def)
next
  case (Some sm)
  show ?thesis
  proof (cases "is_success F (fsm_state sm)")
    case False
    with Some show ?thesis by (simp add: reauth_port_def)
  next
    case True
    from assms Some
    have "\<forall>m' cur. Some sm = Some m' \<and> current_id F (fsm_state m') = Some cur
            \<longrightarrow> (\<exists>n. random_ids s !! n \<noteq> cur)"
      by simp
    from send_preemptive_identity_request_returns [OF this] obtain s'
      where s': "send_preemptive_identity_request F P (Some sm) s = Some s'" by blast
    from send_preemptive_identity_request_result [OF s'] Some True s'
    show ?thesis by (auto simp: reauth_port_def)
  qed
qed

text \<open>
  With the two clients of \<open>two_sessions\<close>: nothing happens for the client that is in the
  middle of an authentication, one request (identifier 7) is queued for the authenticated
  one.
\<close>

theorem reauth_port_emits_iff_success_witness:
  "reauth_port recording_fsm (MacAddress ''aa:bb:cc:dd:ee:02'') ''00:00:00:00:00:10'' two_sessions
     = Some two_sessions
   \<and> map_option eap_output_messages
       (reauth_port recording_fsm (MacAddress ''aa:bb:cc:dd:ee:01'') ''00:00:00:00:00:10'' two_sessions)
     = Some [\<lparr>q_message = IdentityMessage PAE_GROUP_ADDRESS 7 REQUEST [],
              q_src_mac = PAE_GROUP_ADDRESS,
              q_port_mac = from_string ''00:00:00:00:00:10''\<rparr>]"
proof -
  have fair: "\<forall>sm cur. map_of (port_machines two_sessions ''00:00:00:00:00:10'')
                  (str_mac (MacAddress ''aa:bb:cc:dd:ee:01'')) = Some sm
             \<and> current_id recording_fsm (fsm_state sm) = Some cur
             \<longrightarrow> (\<exists>n. random_ids two_sessions !! n \<noteq> cur)"
    by (auto simp: two_sessions_def port_machines_def Chewie_init_def recording_fsm_def
             intro: exI [of _ 0])
  from reauth_port_emits_iff_success [OF fair]
  show ?thesis
    by (simp add: reauth_port_def two_sessions_def port_machines_def Chewie_init_def
          recording_fsm_def send_preemptive_identity_request_def Let_def
          redraw_while_equal.simps)
qed


subsection \<open>The identifier of a preemptive request\<close>

text \<open>
  C2, as amended. A request that \<open>send_preemptive_identity_request\<close> queues carries the
  identifier that it records in \<open>port_to_eapol_id\<close>, and this identifier differs from the
  current identifier of the machine passed to the call, if one is passed and has one. So on
  the reauth path the identifier differs from the current identifier of the session that is
  authenticated again; on the path of the timer no machine is passed, the identifier is the
  first one drawn, and the request is only sent when no session of the port is in progress
  or in success. The identifier is not compared with the current identifier of any other
  session of the port.
\<close>

theorem preemptive_id_differs_from_reauthenticated_session:
  fixes F :: "'sm fsm"
  shows "(send_preemptive_identity_request F P mo s = Some s' \<longrightarrow>
            (\<exists>i. port_to_eapol_id s' P = Some i
               \<and> eap_output_messages s' = eap_output_messages s @
                    [\<lparr>q_message = IdentityMessage PAE_GROUP_ADDRESS i REQUEST [],
                      q_src_mac = PAE_GROUP_ADDRESS,
                      q_port_mac = from_string P\<rparr>]
               \<and> (\<forall>sm cur. mo = Some sm \<and> current_id F (fsm_state sm) = Some cur \<longrightarrow> i \<noteq> cur)))
    \<and> (reauth_port F m P s = Some s' \<and> eap_output_messages s' \<noteq> eap_output_messages s \<longrightarrow>
            (\<exists>i sm. port_to_eapol_id s' P = Some i
               \<and> eap_output_messages s' = eap_output_messages s @
                    [\<lparr>q_message = IdentityMessage PAE_GROUP_ADDRESS i REQUEST [],
                      q_src_mac = PAE_GROUP_ADDRESS,
                      q_port_mac = from_string P\<rparr>]
               \<and> map_of (port_machines s P) (str_mac m) = Some sm
               \<and> is_success F (fsm_state sm)
               \<and> current_id F (fsm_state sm) \<noteq> Some i))
    \<and> (send_preemptive_identity_request_if_no_active_on_port F P s = Some s'
          \<and> eap_output_messages s' \<noteq> eap_output_messages s \<longrightarrow>
            port_to_eapol_id s' P = Some (shd (random_ids s))
            \<and> (\<forall>sm \<in> snd ` set (port_machines s P).
                  \<not> is_in_progress F (fsm_state sm) \<and> \<not> is_success F (fsm_state sm)))"
proof -
  have a: "send_preemptive_identity_request F P mo s = Some s' \<longrightarrow>
            (\<exists>i. port_to_eapol_id s' P = Some i
               \<and> eap_output_messages s' = eap_output_messages s @
                    [\<lparr>q_message = IdentityMessage PAE_GROUP_ADDRESS i REQUEST [],
                      q_src_mac = PAE_GROUP_ADDRESS,
                      q_port_mac = from_string P\<rparr>]
               \<and> (\<forall>sm cur. mo = Some sm \<and> current_id F (fsm_state sm) = Some cur \<longrightarrow> i \<noteq> cur))"
    by (auto dest!: send_preemptive_identity_request_result)
  have b: "reauth_port F m P s = Some s' \<and> eap_output_messages s' \<noteq> eap_output_messages s \<longrightarrow>
            (\<exists>i sm. port_to_eapol_id s' P = Some i
               \<and> eap_output_messages s' = eap_output_messages s @
                    [\<lparr>q_message = IdentityMessage PAE_GROUP_ADDRESS i REQUEST [],
                      q_src_mac = PAE_GROUP_ADDRESS,
                      q_port_mac = from_string P\<rparr>]
               \<and> map_of (port_machines s P) (str_mac m) = Some sm
               \<and> is_success F (fsm_state sm)
               \<and> current_id F (fsm_state sm) \<noteq> Some i)"
    by (auto simp: reauth_port_def split: option.splits if_splits
             dest!: send_preemptive_identity_request_result)
  have c: "send_preemptive_identity_request_if_no_active_on_port F P s = Some s'
          \<and> eap_output_messages s' \<noteq> eap_output_messages s \<longrightarrow>
            port_to_eapol_id s' P = Some (shd (random_ids s))
            \<and> (\<forall>sm \<in> snd ` set (port_machines s P).
                  \<not> is_in_progress F (fsm_state sm) \<and> \<not> is_success F (fsm_state sm))"
    using preemptive_check_result [of F P s]
    by (auto simp: rescheduled_def split: if_splits)
  from a b c show ?thesis by blast
qed

text \<open>
  The identifiers drawn are 5, 5 and 9, the current identifier of the authenticated client
  is 5: the request carries 9.
\<close>

theorem preemptive_id_differs_from_reauthenticated_session_witness:
  "port_to_eapol_id (the (reauth_port recording_fsm (MacAddress ''aa:bb:cc:dd:ee:01'')
      ''00:00:00:00:00:10'' (two_sessions\<lparr>random_ids := 5 ## 5 ## 9 ## sconst 0\<rparr>)))
     ''00:00:00:00:00:10'' = Some 9"
  using preemptive_id_differs_from_reauthenticated_session
    [of recording_fsm "''00:00:00:00:00:10''" "None"
        "two_sessions\<lparr>random_ids := 5 ## 5 ## 9 ## sconst 0\<rparr>"
        "the (reauth_port recording_fsm (MacAddress ''aa:bb:cc:dd:ee:01'')
           ''00:00:00:00:00:10'' (two_sessions\<lparr>random_ids := 5 ## 5 ## 9 ## sconst 0\<rparr>))"
        "MacAddress ''aa:bb:cc:dd:ee:01''"]
  by (simp add: reauth_port_def two_sessions_def port_machines_def Chewie_init_def
        recording_fsm_def send_preemptive_identity_request_def Let_def
        redraw_while_equal.simps)


text \<open>
  C2 as stated fails: the reauth path compares the identifier with the session that is
  authenticated again only. With the two clients of \<open>two_sessions\<close>, the request for the
  first client carries 7, the current identifier of the second client, which is in
  progress on the same port.
\<close>

theorem preemptive_id_equals_other_session_counterexample:
  "reauth_port recording_fsm (MacAddress ''aa:bb:cc:dd:ee:01'') ''00:00:00:00:00:10'' two_sessions
     = Some (two_sessions
         \<lparr>random_ids := sconst 0,
          port_to_eapol_id := [''00:00:00:00:00:10'' \<mapsto> 7],
          eap_output_messages :=
            [\<lparr>q_message = IdentityMessage PAE_GROUP_ADDRESS 7 REQUEST [],
              q_src_mac = PAE_GROUP_ADDRESS,
              q_port_mac = from_string ''00:00:00:00:00:10''\<rparr>]\<rparr>)
   \<and> map_of (port_machines two_sessions ''00:00:00:00:00:10'') ''aa:bb:cc:dd:ee:02''
     = Some \<lparr>obj_id = 1, kind = FullEAPStateMachine,
             fsm_state = \<lparr>rec_in_progress = True, rec_success = False,
                           rec_current_id = Some 7, rec_events = []\<rparr>\<rparr>
   \<and> is_in_progress recording_fsm
        \<lparr>rec_in_progress = True, rec_success = False, rec_current_id = Some 7, rec_events = []\<rparr>
   \<and> current_id recording_fsm
        \<lparr>rec_in_progress = True, rec_success = False, rec_current_id = Some 7, rec_events = []\<rparr>
      = Some 7"
  by (simp add: reauth_port_def two_sessions_def port_machines_def Chewie_init_def
        recording_fsm_def send_preemptive_identity_request_def Let_def
        redraw_while_equal.simps)

subsection \<open>Routing an inbound EAP message\<close>

lemma get_state_machine_keeps:
  "port_to_eapol_id (snd (get_state_machine F m P k s)) = port_to_eapol_id s"
  "port_status (snd (get_state_machine F m P k s)) = port_status s"
  "port_to_identity_job (snd (get_state_machine F m P k s)) = port_to_identity_job s"
  "eap_output_messages (snd (get_state_machine F m P k s)) = eap_output_messages s"
  "timer_scheduler (snd (get_state_machine F m P k s)) = timer_scheduler s"
  "random_ids (snd (get_state_machine F m P k s)) = random_ids s"
  "running (snd (get_state_machine F m P k s)) = running s"
  by (simp_all add: get_state_machine_def Let_def store_machine_def split: option.splits)

lemma get_state_machine_other_client:
  "str_mac m' \<noteq> str_mac m \<Longrightarrow>
     machine_at (snd (get_state_machine F m P k s)) P m' = machine_at s P m'"
  by (auto simp: get_state_machine_def Let_def machine_at_def update_conv' port_machines_def
        store_machine_def split: option.splits)

lemma machine_at_store:
  "machine_at (store_machine (str_mac P) (str_mac m) sm s) P m' =
     (if str_mac m' = str_mac m then Some sm else machine_at s P m')"
  by (simp add: machine_at_def update_conv')

lemma store_machine_keeps:
  "machines_created (store_machine p k sm s) = machines_created s"
  "port_to_eapol_id (store_machine p k sm s) = port_to_eapol_id s"
  "port_status (store_machine p k sm s) = port_status s"
  "port_to_identity_job (store_machine p k sm s) = port_to_identity_job s"
  "eap_output_messages (store_machine p k sm s) = eap_output_messages s"
  "timer_scheduler (store_machine p k sm s) = timer_scheduler s"
  "random_ids (store_machine p k sm s) = random_ids s"
  "running (store_machine p k sm s) = running s"
  by (simp_all add: store_machine_def)

text \<open>
  C5, as amended. While the dispatcher is running, an inbound EAP message with identifier
  m on port P is handed to the machine of (P, source MAC), which is the stored one or, if
  there is none, a new EAP machine made for it: as an
  \<open>EventPreemptiveEAPResponseMessageReceived\<close> exactly when the message has an identifier and
  it is the one recorded in \<open>port_to_eapol_id\<close> for P, and as an \<open>EventMessageReceived\<close>
  otherwise. No other machine of P is touched and at most one machine is made. When the
  dispatcher is not running the message is dropped: nothing changes.
\<close>

theorem send_eap_to_state_machine_routes:
  fixes F :: "'sm fsm"
  shows "(running s \<longrightarrow>
            machine_at (send_eap_to_state_machine F eap P s) P (eap_src_mac eap) =
              Some (deliver F (routed_event s eap P)
                (case machine_at s P (eap_src_mac eap) of
                   Some sm \<Rightarrow> sm
                 | None \<Rightarrow> \<lparr>obj_id = machines_created s, kind = FullEAPStateMachine,
                            fsm_state = new_full_eap F (str_mac P) (eap_src_mac eap)\<rparr>))
          \<and> (\<forall>m'. str_mac m' \<noteq> str_mac (eap_src_mac eap) \<longrightarrow>
                machine_at (send_eap_to_state_machine F eap P s) P m' = machine_at s P m')
          \<and> machines_created (send_eap_to_state_machine F eap P s) =
              (if machine_at s P (eap_src_mac eap) = None
               then Suc (machines_created s) else machines_created s))
    \<and> (\<not> running s \<longrightarrow> send_eap_to_state_machine F eap P s = s)"
proof -
  let ?k = "case eap_message_id eap of None \<Rightarrow> - 1 | Some i \<Rightarrow> int i"
  let ?m = "eap_src_mac eap"
  obtain sm s1 where g: "get_state_machine F ?m P ?k s = (sm, s1)"
    by (cases "get_state_machine F ?m P ?k s")
  have k: "?k \<noteq> - 2" by (simp split: option.splits)
  have ev: "(if ?k \<noteq> - 1 \<and> ?k = (case port_to_eapol_id s1 (str_mac P) of None \<Rightarrow> - 2 | Some i \<Rightarrow> int i)
             then EventPreemptiveEAPResponseMessageReceived eap P
                    (case port_to_eapol_id s1 (str_mac P) of None \<Rightarrow> - 2 | Some i \<Rightarrow> int i)
             else EventMessageReceived (Eap eap) P) = routed_event s eap P"
    using get_state_machine_keeps(1) [of F ?m P ?k s] g
    by (auto simp: routed_event_def split: option.splits)
  have run: "running s \<Longrightarrow> send_eap_to_state_machine F eap P s =
      store_machine (str_mac P) (str_mac ?m) (deliver F (routed_event s eap P) sm) s1"
    using g ev by (simp add: send_eap_to_state_machine_def Let_def)
  have sm: "sm = (case machine_at s P ?m of
                   Some sm \<Rightarrow> sm
                 | None \<Rightarrow> \<lparr>obj_id = machines_created s, kind = FullEAPStateMachine,
                            fsm_state = new_full_eap F (str_mac P) ?m\<rparr>)"
  proof (cases "machine_at s P ?m")
    case None
    then show ?thesis
      using g k
      by (auto simp: get_state_machine_def Let_def machine_at_def port_machines_def
               split: option.splits)
  next
    case (Some x)
    from get_state_machine_existing [OF this, of F ?k] g Some show ?thesis by simp
  qed
  have cnt: "machines_created s1 =
      (if machine_at s P ?m = None then Suc (machines_created s) else machines_created s)"
  proof (cases "machine_at s P ?m")
    case None
    from get_state_machine_new [OF this, of F ?k] g None show ?thesis by simp
  next
    case (Some x)
    from get_state_machine_existing [OF this, of F ?k] g Some show ?thesis by simp
  qed
  have other: "\<forall>m'. str_mac m' \<noteq> str_mac ?m \<longrightarrow> machine_at s1 P m' = machine_at s P m'"
    using get_state_machine_other_client [of _ ?m F P ?k s] g by simp
  have stopped: "\<not> running s \<Longrightarrow> send_eap_to_state_machine F eap P s = s"
    by (simp add: send_eap_to_state_machine_def)
  show ?thesis
    using run sm cnt other stopped
    by (auto simp: machine_at_store store_machine_keeps)
qed

text \<open>
  A reply with the recorded identifier 7 reaches a new machine as the preemptive event; a
  message with identifier 8 reaches it as a plain message.
\<close>

theorem send_eap_to_state_machine_routes_witness:
  "machine_at (send_eap_to_state_machine recording_fsm reply_7 (MacAddress ''00:00:00:00:00:10'')
       awaiting_reply) (MacAddress ''00:00:00:00:00:10'') (MacAddress ''aa:bb:cc:dd:ee:01'')
     = Some \<lparr>obj_id = 0, kind = FullEAPStateMachine,
             fsm_state = \<lparr>rec_in_progress = False, rec_success = False, rec_current_id = None,
               rec_events = [EventPreemptiveEAPResponseMessageReceived reply_7
                               (MacAddress ''00:00:00:00:00:10'') 7]\<rparr>\<rparr>
   \<and> machine_at (send_eap_to_state_machine recording_fsm (reply_7\<lparr>eap_message_id := Some 8\<rparr>)
       (MacAddress ''00:00:00:00:00:10'') awaiting_reply)
       (MacAddress ''00:00:00:00:00:10'') (MacAddress ''aa:bb:cc:dd:ee:01'')
     = Some \<lparr>obj_id = 0, kind = FullEAPStateMachine,
             fsm_state = \<lparr>rec_in_progress = False, rec_success = False, rec_current_id = None,
               rec_events = [EventMessageReceived (Eap (reply_7\<lparr>eap_message_id := Some 8\<rparr>))
                               (MacAddress ''00:00:00:00:00:10'')]\<rparr>\<rparr>"
  using send_eap_to_state_machine_routes
      [of awaiting_reply recording_fsm reply_7 "MacAddress ''00:00:00:00:00:10''"]
    send_eap_to_state_machine_routes
      [of awaiting_reply recording_fsm "reply_7\<lparr>eap_message_id := Some 8\<rparr>"
          "MacAddress ''00:00:00:00:00:10''"]
  by (simp add: awaiting_reply_def reply_7_def machine_at_def port_machines_def Chewie_init_def
        recording_fsm_def routed_event_def deliver_def)

text \<open>
  C5 as stated fails during shutdown: with \<open>self.running\<close> false the reply to the
  preemptive request is dropped, no machine is made and no event is delivered.
\<close>

theorem reply_dropped_when_not_running_counterexample:
  "send_eap_to_state_machine recording_fsm reply_7 (MacAddress ''00:00:00:00:00:10'')
       (awaiting_reply\<lparr>running := False\<rparr>) = awaiting_reply\<lparr>running := False\<rparr>
   \<and> machine_at (send_eap_to_state_machine recording_fsm reply_7 (MacAddress ''00:00:00:00:00:10'')
       (awaiting_reply\<lparr>running := False\<rparr>))
       (MacAddress ''00:00:00:00:00:10'') (MacAddress ''aa:bb:cc:dd:ee:01'') = None"
  by (simp add: send_eap_to_state_machine_def awaiting_reply_def machine_at_def port_machines_def
        Chewie_init_def)

subsection \<open>After port\_down\<close>

lemma get_state_machine_other_port:
  "str_mac Q \<noteq> p \<Longrightarrow> state_machines (snd (get_state_machine F m Q k s)) p = state_machines s p"
  by (auto simp: get_state_machine_def Let_def store_machine_def split: option.splits)

lemma store_machine_other_port:
  "q \<noteq> p \<Longrightarrow> state_machines (store_machine q k sm s) p = state_machines s p"
  by (simp add: store_machine_def)

lemma send_eap_keeps:
  "port_status (send_eap_to_state_machine F eap Q s) = port_status s"
  "eap_output_messages (send_eap_to_state_machine F eap Q s) = eap_output_messages s"
  "str_mac Q \<noteq> p \<Longrightarrow> state_machines (send_eap_to_state_machine F eap Q s) p = state_machines s p"
  by (simp_all add: send_eap_to_state_machine_def Let_def split_beta store_machine_keeps
        store_machine_other_port get_state_machine_keeps get_state_machine_other_port)

lemma send_eth_keeps:
  assumes "send_eth_to_state_machine F parse pkt s = Inr s'"
  shows "port_status s' = port_status s"
    and "eap_output_messages s' = eap_output_messages s"
    and "\<not> routed_to parse p (EthArrived pkt) \<Longrightarrow> state_machines s' p = state_machines s p"
  using assms
  by (auto simp: send_eth_to_state_machine_def Let_def split_beta store_machine_keeps
        store_machine_other_port get_state_machine_keeps get_state_machine_other_port
        split: sum.splits)

lemma send_radius_keeps:
  "port_status (send_radius_to_state_machine F ev m Q s) = port_status s"
  "eap_output_messages (send_radius_to_state_machine F ev m Q s) = eap_output_messages s"
  "str_mac Q \<noteq> p \<Longrightarrow> state_machines (send_radius_to_state_machine F ev m Q s) p = state_machines s p"
  by (simp_all add: send_radius_to_state_machine_def Let_def split_beta store_machine_keeps
        store_machine_other_port get_state_machine_keeps get_state_machine_other_port)

lemma auth_success_keeps:
  "port_status (auth_success m p period s) = port_status s"
  "eap_output_messages (auth_success m p period s) = eap_output_messages s"
  "state_machines (auth_success m p period s) = state_machines s"
  by (simp_all add: auth_success_def call_later_def Let_def)

lemma port_up_keeps:
  "Q \<noteq> P \<Longrightarrow> port_status (port_up F Q s) P = port_status s P"
  "Q \<noteq> P \<Longrightarrow> state_machines (port_up F Q s) P = state_machines s P"
  by (simp_all add: port_up_def call_later_def Let_def set_port_status_fields
        set_port_status_machines_other)

lemma port_down_keeps:
  "port_status s P = Some False \<Longrightarrow> port_status (port_down F Q s) P = Some False"
  "state_machines s P = None \<Longrightarrow> state_machines (port_down F Q s) P = None"
  by (cases "Q = P"; cases "port_to_identity_job s Q";
      simp add: port_down_def Let_def set_port_status_fields set_port_status_machines_other)+

lemma timer_paths_keep:
  "send_preemptive_identity_request_if_no_active_on_port F Q s = Some s' \<Longrightarrow>
     port_status s' = port_status s \<and> state_machines s' = state_machines s"
  "reauth_port F m Q s = Some s' \<Longrightarrow>
     port_status s' = port_status s \<and> state_machines s' = state_machines s"
   apply (simp add: preemptive_check_result rescheduled_def split: if_splits)
   apply auto[1]
  apply (auto simp: reauth_port_def split: option.splits if_splits
           dest!: send_preemptive_identity_request_result)
  done

lemma step_keeps_port_down:
  assumes "step F parse c s = Some s'" and "c \<noteq> PortUp P" and "port_status s P = Some False"
  shows "port_status s' P = Some False"
proof (cases c)
  case (PortUp Q)
  with assms show ?thesis by (auto simp: port_up_keeps)
next
  case (PortDown Q)
  with assms show ?thesis by (auto simp: port_down_keeps)
next
  case (PreemptiveTimerFired Q)
  with assms timer_paths_keep(1) [of F Q s s'] show ?thesis by simp
next
  case (ReauthTimerFired m Q)
  with assms timer_paths_keep(2) [of F m Q s s'] show ?thesis by simp
next
  case (EapArrived eap Q)
  with assms show ?thesis by (auto simp: send_eap_keeps)
next
  case (EthArrived pkt)
  with assms show ?thesis by (auto split: sum.splits dest: send_eth_keeps(1))
next
  case (RadiusArrived ev m Q)
  with assms show ?thesis by (auto simp: send_radius_keeps)
next
  case (AuthSuccess m Q period)
  with assms show ?thesis by (auto simp: auth_success_keeps)
next
  case (RunningSet b)
  with assms show ?thesis by auto
next
  case (MachineMoved p k st)
  with assms show ?thesis by (auto simp: store_machine_keeps split: option.splits)
qed

lemma step_keeps_no_machines:
  assumes "step F parse c s = Some s'" and "c \<noteq> PortUp P" and "\<not> routed_to parse P c"
    and "state_machines s P = None"
  shows "state_machines s' P = None"
proof (cases c)
  case (PortUp Q)
  with assms show ?thesis by (auto simp: port_up_keeps)
next
  case (PortDown Q)
  with assms show ?thesis by (auto simp: port_down_keeps)
next
  case (PreemptiveTimerFired Q)
  with assms timer_paths_keep(1) [of F Q s s'] show ?thesis by simp
next
  case (ReauthTimerFired m Q)
  with assms timer_paths_keep(2) [of F m Q s s'] show ?thesis by simp
next
  case (EapArrived eap Q)
  with assms show ?thesis by (auto simp: send_eap_keeps)
next
  case (EthArrived pkt)
  with assms send_eth_keeps(3) [of F parse pkt s _ P] show ?thesis
    by (auto split: sum.splits)
next
  case (RadiusArrived ev m Q)
  with assms show ?thesis by (auto simp: send_radius_keeps)
next
  case (AuthSuccess m Q period)
  with assms show ?thesis by (auto simp: auth_success_keeps)
next
  case (RunningSet b)
  with assms show ?thesis by auto
next
  case (MachineMoved p k st)
  with assms show ?thesis
    by (auto simp: store_machine_def port_machines_def split: option.splits if_splits)
qed

lemma run_keeps_port_down:
  "run F parse cs s = Some s' \<Longrightarrow> PortUp P \<notin> set cs \<Longrightarrow> port_status s P = Some False
     \<Longrightarrow> port_status s' P = Some False"
proof (induction cs arbitrary: s)
  case Nil
  then show ?case by simp
next
  case (Cons c cs)
  from Cons.prems(1) obtain s1 where c: "step F parse c s = Some s1"
    and cs: "run F parse cs s1 = Some s'"
    by (auto split: option.splits)
  from Cons.prems have "c \<noteq> PortUp P" by auto
  from step_keeps_port_down [OF c this Cons.prems(3)] have "port_status s1 P = Some False" .
  with Cons.IH [OF cs] Cons.prems(2) show ?case by simp
qed

lemma run_keeps_no_machines:
  "run F parse cs s = Some s' \<Longrightarrow> PortUp P \<notin> set cs \<Longrightarrow> \<forall>c \<in> set cs. \<not> routed_to parse P c
     \<Longrightarrow> state_machines s P = None \<Longrightarrow> state_machines s' P = None"
proof (induction cs arbitrary: s)
  case Nil
  then show ?case by simp
next
  case (Cons c cs)
  from Cons.prems(1) obtain s1 where c: "step F parse c s = Some s1"
    and cs: "run F parse cs s1 = Some s'"
    by (auto split: option.splits)
  from Cons.prems have "c \<noteq> PortUp P" and "\<not> routed_to parse P c" by auto
  from step_keeps_no_machines [OF c this Cons.prems(4)] have "state_machines s1 P = None" .
  with Cons.IH [OF cs] Cons.prems(2,3) show ?case by simp
qed

text \<open>
  C1, as amended. After \<open>port_down(P)\<close>, whatever calls follow as long as \<open>port_up(P)\<close> is
  not among them, \<open>port_status[P]\<close> is false and a firing of the preemptive identity timer
  of P returns without putting anything on the EAP output queue and without touching
  \<open>port_to_eapol_id\<close>. The reauth path has no check of \<open>port_status\<close>: it is silent for P
  as long as no inbound message (EAP frame, DHCP frame, RADIUS reply) is routed to P, since
  \<open>port_down\<close> has removed the machines of P and nothing else makes one.
\<close>

theorem port_down_silences_timers:
  fixes F :: "'sm fsm"
  assumes "PortUp P \<notin> set cs" and "run F parse cs (port_down F P s) = Some s'"
  shows "port_status s' P = Some False
    \<and> (\<exists>s''. send_preemptive_identity_request_if_no_active_on_port F P s' = Some s''
          \<and> eap_output_messages s'' = eap_output_messages s'
          \<and> port_to_eapol_id s'' = port_to_eapol_id s')
    \<and> ((\<forall>c \<in> set cs. \<not> routed_to parse P c) \<longrightarrow>
          state_machines s' P = None \<and> (\<forall>m. reauth_port F m P s' = Some s'))"
proof -
  have d: "port_status (port_down F P s) P = Some False"
    and e: "state_machines (port_down F P s) P = None"
    by (cases "port_to_identity_job s P";
        simp add: port_down_def Let_def set_port_status_fields)+
  from run_keeps_port_down [OF assms(2,1) d] have st: "port_status s' P = Some False" .
  then have fire: "\<exists>s''. send_preemptive_identity_request_if_no_active_on_port F P s' = Some s''
          \<and> eap_output_messages s'' = eap_output_messages s'
          \<and> port_to_eapol_id s'' = port_to_eapol_id s'"
    by (simp add: preemptive_check_result rescheduled_def)
  have re: "state_machines s' P = None \<and> (\<forall>m. reauth_port F m P s' = Some s')"
    if "\<forall>c \<in> set cs. \<not> routed_to parse P c"
  proof -
    from run_keeps_no_machines [OF assms(2,1) that e] have "state_machines s' P = None" .
    then show ?thesis by (simp add: reauth_port_def port_machines_def)
  qed
  from st fire re show ?thesis by blast
qed

text \<open>
  The port of \<open>two_sessions\<close> goes down; its timer fires, the reauth job of the
  authenticated client fires, the timer fires again: nothing is queued.
\<close>

theorem port_down_silences_timers_witness:
  "map_option eap_output_messages
     (run recording_fsm unreadable
        [PreemptiveTimerFired ''00:00:00:00:00:10'',
         ReauthTimerFired (MacAddress ''aa:bb:cc:dd:ee:01'') ''00:00:00:00:00:10'',
         PreemptiveTimerFired ''00:00:00:00:00:10'']
        (port_down recording_fsm ''00:00:00:00:00:10'' two_sessions)) = Some []"
proof -
  let ?cs = "[PreemptiveTimerFired ''00:00:00:00:00:10'',
         ReauthTimerFired (MacAddress ''aa:bb:cc:dd:ee:01'') ''00:00:00:00:00:10'',
         PreemptiveTimerFired ''00:00:00:00:00:10''] :: recorder dispatcher_call list"
  have quiet: "map_option eap_output_messages
     (run recording_fsm unreadable ?cs
        (port_down recording_fsm ''00:00:00:00:00:10'' two_sessions)) = Some []"
    by (simp add: two_sessions_def port_down_def set_port_status_def
        Chewie_init_def recording_fsm_def call_later_def cancel_def Let_def port_machines_def
        reauth_port_def send_preemptive_identity_request_if_no_active_on_port_def
        DEFAULT_PREEMPTIVE_IDENTITY_REQUEST_INTERVAL_def)
  then obtain s' where r: "run recording_fsm unreadable ?cs
      (port_down recording_fsm ''00:00:00:00:00:10'' two_sessions) = Some s'"
    by auto
  have n: "PortUp ''00:00:00:00:00:10'' \<notin> set ?cs" by simp
  from port_down_silences_timers [OF n r] quiet
  show ?thesis by simp
qed

text \<open>
  C1 as stated fails for a session made after the port went down: the dispatcher makes a
  machine for a message that arrives on the port, hands it the server's reply, and when
  the machine (here the one modelled from the spec) is in success the reauth job queues an
  Identity Request for the port, whose status is still false.
\<close>

theorem reauth_after_port_down_counterexample:
  "map_option eap_output_messages
     (run pae_fsm unreadable late_session (port_down pae_fsm ''00:00:00:00:00:10'' port_10_up))
     = Some [\<lparr>q_message = IdentityMessage PAE_GROUP_ADDRESS 7 REQUEST [],
              q_src_mac = PAE_GROUP_ADDRESS,
              q_port_mac = from_string ''00:00:00:00:00:10''\<rparr>]
   \<and> map_option port_status
     (run pae_fsm unreadable late_session (port_down pae_fsm ''00:00:00:00:00:10'' port_10_up))
     = Some [''00:00:00:00:00:10'' \<mapsto> False]
   \<and> PortUp ''00:00:00:00:00:10'' \<notin> set late_session"
  by (simp add: late_session_def port_10_up_def port_down_def port_up_def set_port_status_def
        Chewie_init_def pae_fsm_def call_later_def cancel_def Let_def port_machines_def
        send_eap_to_state_machine_def send_radius_to_state_machine_def get_state_machine_def
        store_machine_def deliver_def reauth_port_def send_preemptive_identity_request_def
        auth_success_def DEFAULT_PORT_UP_IDENTITY_REQUEST_WAIT_PERIOD_def)

subsection \<open>The filter of the MAB socket\<close>

lemma unpack_H_two:
  assumes "length b = 2"
  shows "\<exists>n. unpack_H b = Inr n"
proof -
  from assms obtain hi lo where "b = [hi, lo]"
    by (cases b; simp) (metis length_0_conv length_Suc_conv)
  then show ?thesis by (simp add: unpack_H_def)
qed

lemma MabSocket_receive_long_frame:
  assumes "38 \<le> length pkt"
  shows "MabSocket_receive (Frame pkt # rest) =
           (if is_dhcp_request pkt then Received pkt rest else MabSocket_receive rest)"
proof -
  from assms have "length (py_slice 34 36 pkt) = 2" "length (py_slice 36 38 pkt) = 2"
    by (simp_all add: py_slice_def)
  then obtain a b where "unpack_H (py_slice 34 36 pkt) = Inr a" "unpack_H (py_slice 36 38 pkt) = Inr b"
    using unpack_H_two by blast
  then show ?thesis
    by (simp add: is_dhcp_request_def UDP_IPTYPE_def DHCP_UDP_SRC_def DHCP_UDP_DST_def)
qed

text \<open>
  C4 asks that every frame that fails the filter (IPv4 protocol byte 0x11, UDP source port
  68, destination port 67) be dropped silently, reception going on with the next frame.
  The source does not do so for a frame whose protocol byte is 0x11 and that ends before
  offset 38: \<open>struct.unpack\<close> is given less than two bytes and raises \<open>struct.error\<close>, which
  leaves \<open>receive\<close>; the DHCP request behind the short frame is not returned by this call.
  (For a frame of 38 bytes or more, \<open>MabSocket_receive_long_frame\<close> above, the filter is the
  stated one.)
\<close>

theorem MabSocket_receive_short_udp_frame_raises:
  "MabSocket_receive [Frame short_udp_frame, Frame dhcp_frame] = RecvRaised StructError
   \<and> MabSocket_receive [Frame dhcp_frame] = Received dhcp_frame []
   \<and> \<not> is_dhcp_request short_udp_frame"
  by (simp add: short_udp_frame_def dhcp_frame_def py_slice_def unpack_H_def UDP_IPTYPE_def
        DHCP_UDP_SRC_def DHCP_UDP_DST_def is_dhcp_request_def)


subsection \<open>Closing the EAP socket\<close>

lemma EapSocket_close_open:
  assumes "sock es = Some raw" "raises_only_OSError (shutdown_raises raw)"
    "raises_only_OSError (close_raises raw)"
  shows "EapSocket_close es = Inr (es\<lparr>sock := None, os_calls := os_calls es @ [Shutdown, Close]\<rparr>)"
  using assms
  by (auto simp: EapSocket_close_def raises_only_OSError_def except_OSError_pass_def
           split: option.splits py_exception.splits)

lemma EapSocket_close_closed:
  assumes "EapSocket_close es = Inr es'"
  shows "sock es' = None \<and> EapSocket_close es' = Inr es'"
  using assms
  by (auto simp: EapSocket_close_def split: option.splits)

lemma receive_eap_messages_socket_gone:
  assumes "running s" "eap_socket_gone s"
  shows "receive_eap_messages F parse rounds s = Returned (s, rounds)"
proof -
  have loop: "eap_receive_loop F parse rounds s = Returned (s, rounds)"
    using assms by (cases rounds) (auto simp: eap_socket_gone_def split: option.splits)
  have fin: "close_eap_socket s = Inr s"
    using assms(2)
    by (auto simp: close_eap_socket_def eap_socket_gone_def EapSocket_close_def split: option.splits)
  from loop fin show ?thesis by (simp add: receive_eap_messages_def)
qed

text \<open>
  C9. \<open>EapSocket.close\<close> calls \<open>shutdown\<close> and \<open>close\<close> on the raw socket, ignoring an
  \<open>OSError\<close> of either, and sets the socket field to \<open>None\<close>; after a \<open>close()\<close> that has
  returned the socket field is \<open>None\<close> and a second \<open>close()\<close> returns without raising and
  without doing anything; and the EAP receive loop, when it is running and finds the socket
  (or its field) gone, leaves its loop and ends normally without a receive: no round of
  input is used, and the \<open>finally\<close> clause changes nothing.
\<close>

theorem EapSocket_close_then_loop_ends:
  fixes F :: "'sm fsm"
  shows "(sock es = Some raw \<and> raises_only_OSError (shutdown_raises raw)
            \<and> raises_only_OSError (close_raises raw) \<longrightarrow>
            EapSocket_close es = Inr (es\<lparr>sock := None, os_calls := os_calls es @ [Shutdown, Close]\<rparr>))
    \<and> (EapSocket_close es = Inr es' \<longrightarrow> sock es' = None \<and> EapSocket_close es' = Inr es')
    \<and> (running s \<and> eap_socket_gone s \<longrightarrow>
          receive_eap_messages F parse rounds s = Returned (s, rounds))"
  using EapSocket_close_open [of es raw] EapSocket_close_closed [of es es']
    receive_eap_messages_socket_gone [of s F parse rounds]
  by blast


text \<open>
  The \<open>shutdown\<close> of a socket that was never connected raises \<open>OSError\<close>: \<open>close()\<close>
  returns all the same, a second \<open>close()\<close> does nothing, and the loop ends at once although
  a frame is waiting.
\<close>

theorem EapSocket_close_then_loop_ends_witness:
  "EapSocket_close unconnected = Inr \<lparr>sock = None, os_calls = [Shutdown, Close]\<rparr>
   \<and> EapSocket_close \<lparr>sock = None, os_calls = [Shutdown, Close]\<rparr>
       = Inr \<lparr>sock = None, os_calls = [Shutdown, Close]\<rparr>
   \<and> receive_eap_messages recording_fsm unreadable
        [\<lparr>arrivals = [Frame dhcp_frame], stop_requested = False\<rparr>]
        ((Chewie_init (sconst 0))
           \<lparr>running := True, eap_socket := Some \<lparr>sock = None, os_calls = [Shutdown, Close]\<rparr>\<rparr>)
     = Returned ((Chewie_init (sconst 0))
           \<lparr>running := True, eap_socket := Some \<lparr>sock = None, os_calls = [Shutdown, Close]\<rparr>\<rparr>,
         [\<lparr>arrivals = [Frame dhcp_frame], stop_requested = False\<rparr>])"
  using EapSocket_close_then_loop_ends
    [of unconnected "\<lparr>shutdown_raises = Some (OSError 107), close_raises = None\<rparr>"
        "\<lparr>sock = None, os_calls = [Shutdown, Close]\<rparr>"
        "(Chewie_init (sconst 0))
           \<lparr>running := True, eap_socket := Some \<lparr>sock = None, os_calls = [Shutdown, Close]\<rparr>\<rparr>"
        recording_fsm unreadable
        "[\<lparr>arrivals = [Frame dhcp_frame], stop_requested = False\<rparr>]"]
  by (simp add: unconnected_def raises_only_OSError_def eap_socket_gone_def Chewie_init_def
        EapSocket_close_def except_OSError_pass_def)


subsection \<open>The MAB receive loop\<close>

lemma mab_except_cases:
  "mab_except (Some e') s = Inl e'"
  "\<exists>s2. mab_except None s = Inr s2 \<and> slept s2 = slept s @ [2] \<and> running s2 = running s"
  by (simp_all add: mab_except_def sleep_def)

lemma receive_mab_messages_raised:
  "receive_mab_messages F parse rounds s = Raised e' x \<Longrightarrow>
     \<exists>r \<in> set rounds. sleep_0_raises r = Some e' \<or> sleep_2_raises r = Some e'"
proof (induction rounds arbitrary: s)
  case Nil
  then show ?case by (simp split: if_splits)
next
  case (Cons r rest)
  show ?case
  proof (cases "\<exists>s'. receive_mab_messages F parse rest s' = Raised e' x")
    case True
    then obtain s' where "receive_mab_messages F parse rest s' = Raised e' x" ..
    from Cons.IH [OF this] show ?thesis by auto
  next
    case False
    with Cons.prems show ?thesis
      by (auto simp: Let_def sleep_def mab_except_def
               split: if_splits option.splits sum.splits recv_result.splits)
  qed
qed

lemma receive_mab_messages_try_raises:
  assumes "running s" and "sleep_0_raises r = None"
    and "MabSocket_receive (arrivals r) = RecvRaised e
         \<or> (\<exists>pkt remaining. MabSocket_receive (arrivals r) = Received pkt remaining
              \<and> send_eth_to_state_machine F parse pkt
                    (other_tasks r (s\<lparr>slept := slept s @ [0]\<rparr>)) = Inl e)"
  shows "receive_mab_messages F parse (r # rest) s =
           (case mab_except (sleep_2_raises r) (other_tasks r (s\<lparr>slept := slept s @ [0]\<rparr>)) of
              Inl e' \<Rightarrow> Raised e' (other_tasks r (s\<lparr>slept := slept s @ [0]\<rparr>), rest)
            | Inr s2 \<Rightarrow> receive_mab_messages F parse rest s2)"
  using assms by (auto simp: sleep_def Let_def)

text \<open>
  C8, as amended. Whatever is raised in the \<open>try\<close> body of \<open>receive_mab_messages\<close>, while
  a frame is received (a socket error, \<open>struct.error\<close>) or handled (a parse error), is
  caught by the bare \<open>except\<close>, which then awaits \<open>sleep(2)\<close>; when this sleep returns,
  the loop goes on with the next test of \<open>self.running\<close>. The two sleeps are not
  protected: what \<open>await sleep(0)\<close> raises (it is outside the \<open>try\<close>) and what
  \<open>await sleep(2)\<close> raises (inside the handler) leaves the function, also while
  \<open>self.running\<close> is set; this is \<open>CancelledError\<close> when the task is cancelled there.
  Nothing else leaves the function, and it returns when \<open>self.running\<close> is not set.
\<close>

theorem receive_mab_messages_catches_try_body:
  fixes F :: "'sm fsm"
  shows "(running s \<and> sleep_0_raises r = None
          \<and> (MabSocket_receive (arrivals r) = RecvRaised e
              \<or> (\<exists>pkt remaining. MabSocket_receive (arrivals r) = Received pkt remaining
                   \<and> send_eth_to_state_machine F parse pkt
                         (other_tasks r (s\<lparr>slept := slept s @ [0]\<rparr>)) = Inl e))
          \<longrightarrow> (sleep_2_raises r = None \<longrightarrow>
                 (\<exists>s2. receive_mab_messages F parse (r # rest) s =
                          receive_mab_messages F parse rest s2
                      \<and> slept s2 = slept s @ [0, 2]
                      \<and> running s2 = (\<not> stop_requested r)))
            \<and> (\<forall>e'. sleep_2_raises r = Some e' \<longrightarrow>
                 receive_mab_messages F parse (r # rest) s =
                   Raised e' (other_tasks r (s\<lparr>slept := slept s @ [0]\<rparr>), rest)))
    \<and> (running s \<and> sleep_0_raises r = Some e' \<longrightarrow>
          receive_mab_messages F parse (r # rest) s = Raised e' (s, rest))
    \<and> (receive_mab_messages F parse rounds s = Raised e' x \<longrightarrow>
          (\<exists>r \<in> set rounds. sleep_0_raises r = Some e' \<or> sleep_2_raises r = Some e'))
    \<and> (\<not> running s \<longrightarrow> receive_mab_messages F parse rounds s = Returned (s, rounds))"
proof -
  let ?s1 = "other_tasks r (s\<lparr>slept := slept s @ [0]\<rparr>)"
  have a: "(sleep_2_raises r = None \<longrightarrow>
                 (\<exists>s2. receive_mab_messages F parse (r # rest) s =
                          receive_mab_messages F parse rest s2
                      \<and> slept s2 = slept s @ [0, 2]
                      \<and> running s2 = (\<not> stop_requested r)))
            \<and> (\<forall>e'. sleep_2_raises r = Some e' \<longrightarrow>
                 receive_mab_messages F parse (r # rest) s = Raised e' (?s1, rest))"
    if "running s" and "sleep_0_raises r = None"
      and "MabSocket_receive (arrivals r) = RecvRaised e
              \<or> (\<exists>pkt remaining. MabSocket_receive (arrivals r) = Received pkt remaining
                   \<and> send_eth_to_state_machine F parse pkt ?s1 = Inl e)"
  proof -
    note eq = receive_mab_messages_try_raises [OF that, of rest]
    obtain s2 where s2: "mab_except None ?s1 = Inr s2" "slept s2 = slept ?s1 @ [2]"
      "running s2 = running ?s1"
      using mab_except_cases(2) [of ?s1] by blast
    have "slept s2 = slept s @ [0, 2]" "running s2 = (\<not> stop_requested r)"
      using s2 that(1) by (simp_all add: other_tasks_def)
    with eq s2(1) show ?thesis
      by (auto simp: mab_except_cases(1))
  qed
  have b: "running s \<and> sleep_0_raises r = Some e' \<longrightarrow>
          receive_mab_messages F parse (r # rest) s = Raised e' (s, rest)"
    by (simp add: sleep_def)
  have c: "receive_mab_messages F parse rounds s = Raised e' x \<longrightarrow>
          (\<exists>r \<in> set rounds. sleep_0_raises r = Some e' \<or> sleep_2_raises r = Some e')"
    using receive_mab_messages_raised by blast
  have d: "\<not> running s \<longrightarrow> receive_mab_messages F parse rounds s = Returned (s, rounds)"
    by (cases rounds) simp_all
  from a b c d show ?thesis by blast
qed

text \<open>
  A socket error in the first round, a frame that cannot be parsed in the second one,
  during which the dispatcher is stopped, and no sleep is cancelled: two sleeps of 2
  seconds, one error logged (the dispatcher was still running), and the loop returns.
\<close>

theorem receive_mab_messages_catches_try_body_witness:
  "receive_mab_messages recording_fsm unreadable
     [\<lparr>arrivals = [RecvRaises (OSError 9)], stop_requested = False,
       sleep_0_raises = None, sleep_2_raises = None\<rparr>,
      \<lparr>arrivals = [Frame dhcp_frame], stop_requested = True,
       sleep_0_raises = None, sleep_2_raises = None\<rparr>]
     ((Chewie_init (sconst 0))\<lparr>running := True\<rparr>)
   = Returned ((Chewie_init (sconst 0))
        \<lparr>running := False, slept := [0, 2, 0, 2],
         error_log := [''Error on receiving EAP message'']\<rparr>, [])"
  using receive_mab_messages_catches_try_body
    [of "(Chewie_init (sconst 0))\<lparr>running := True\<rparr>"
        "\<lparr>arrivals = [RecvRaises (OSError 9)], stop_requested = False,
          sleep_0_raises = None, sleep_2_raises = None\<rparr>"
        "OSError 9" recording_fsm unreadable
        "[\<lparr>arrivals = [Frame dhcp_frame], stop_requested = True,
           sleep_0_raises = None, sleep_2_raises = None\<rparr>]"]
  by (simp add: Chewie_init_def mab_except_def other_tasks_def sleep_def Let_def
        send_eth_to_state_machine_def unreadable_def dhcp_frame_def py_slice_def unpack_H_def
        UDP_IPTYPE_def DHCP_UDP_SRC_def DHCP_UDP_DST_def)

text \<open>
  C8 as stated fails when the task is cancelled during the backoff: the socket error is
  caught, but the \<open>CancelledError\<close> of \<open>await sleep(2)\<close> leaves
  \<open>receive_mab_messages\<close> while \<open>self.running\<close> is set, and the loop does not go on to the
  frame that is waiting.
\<close>

theorem cancelled_backoff_leaves_mab_loop_counterexample:
  "receive_mab_messages recording_fsm unreadable
     [\<lparr>arrivals = [RecvRaises (OSError 9)], stop_requested = False,
       sleep_0_raises = None, sleep_2_raises = Some CancelledError\<rparr>,
      \<lparr>arrivals = [Frame dhcp_frame], stop_requested = False,
       sleep_0_raises = None, sleep_2_raises = None\<rparr>]
     ((Chewie_init (sconst 0))\<lparr>running := True\<rparr>)
   = Raised CancelledError
       ((Chewie_init (sconst 0))\<lparr>running := True, slept := [0]\<rparr>,
        [\<lparr>arrivals = [Frame dhcp_frame], stop_requested = False,
          sleep_0_raises = None, sleep_2_raises = None\<rparr>])
   \<and> running ((Chewie_init (sconst 0))\<lparr>running := True, slept := [0]\<rparr> :: recorder chewie)"
  by (simp add: Chewie_init_def mab_except_def other_tasks_def sleep_def Let_def)

end
